theory Spec2Isabelle
  imports Complex_Main
begin

section \<open>Python values, errors and slicing\<close>

text \<open>
  The perception records of \<^verbatim>\<open>omega_format/perception/object.py\<close> hold NumPy arrays
  and Python lists. A one-dimensional numeric array is modelled by the list of its
  elements, each element by its real value (so storage precision is not modelled).
  The enumerations of \<^verbatim>\<open>PerceptionTypes\<close> are declared in \<^verbatim>\<open>enums.py\<close>, which is
  not part of the sources at hand: an enumeration member is modelled by its numeric
  code, and the set of valid codes of each enumeration is a parameter.
\<close>

type_synonym number = real

datatype error =
    AssertionError
  | ValidationError
  | ValueError
  | TypeError
  | AttributeError
  | KeyError

datatype warning = UserWarning

text \<open>
  Python's \<^verbatim>\<open>xs[i:j]\<close> (step 1): a negative bound counts from the end, and both
  bounds are clipped to the sequence, so a slice never raises.
\<close>

definition slice_bound :: "nat \<Rightarrow> int \<Rightarrow> nat" where
  "slice_bound n i = (if i < 0 then nat (max (i + int n) 0) else min (nat i) n)"

definition py_slice :: "'a list \<Rightarrow> int \<Rightarrow> int \<Rightarrow> 'a list" where
  "py_slice xs i j =
     (let lo = slice_bound (length xs) i; hi = slice_bound (length xs) j
      in take (hi - lo) (drop lo xs))"

definition py_len :: "'a list \<Rightarrow> int" where
  "py_len xs = int (length xs)"

text \<open>
  An integer attribute holds a Python \<^verbatim>\<open>int\<close>, which is unbounded, or a
  \<^verbatim>\<open>numpy.int64\<close>: \<^verbatim>\<open>Object.from_hdf5\<close> passes \<^verbatim>\<open>.astype(int)\<close> of a stored attribute to
  the constructor, validation converts it to \<^verbatim>\<open>int\<close>, and \<^verbatim>\<open>cls.construct\<close> (the
  load with \<^verbatim>\<open>validate=False\<close>) keeps it as it is. \<open>a + n\<close> with \<open>a\<close> a \<^verbatim>\<open>numpy.int64\<close>
  and \<open>n\<close> a Python \<^verbatim>\<open>int\<close> inside the 64-bit range (below, \<open>n\<close> is a length or an
  index under a length) is a \<^verbatim>\<open>numpy.int64\<close> again and wraps around modulo \<open>2^64\<close>.
\<close>

datatype pyint = PyInt int | NpInt64 int

primrec int_of :: "pyint \<Rightarrow> int" where
  "int_of (PyInt a) = a"
| "int_of (NpInt64 a) = a"

definition wrap_int64 :: "int \<Rightarrow> int" where
  "wrap_int64 x = (x + 2 ^ 63) mod 2 ^ 64 - 2 ^ 63"

primrec pyint_add :: "pyint \<Rightarrow> int \<Rightarrow> pyint" where
  "pyint_add (PyInt a) n = PyInt (a + n)"
| "pyint_add (NpInt64 a) n = NpInt64 (wrap_int64 (a + n))"

section \<open>ValVar\<close>

text \<open>
  The class \<^verbatim>\<open>ValVar\<close> of \<^verbatim>\<open>perception/valvar.py\<close> is missing from the sources.
  The spec describes it as a value/validity pair of time series; the source reads its
  value series as \<^verbatim>\<open>.val\<close>, and the second series is named \<^verbatim>\<open>var\<close> here.
\<close>

record ValVar =
  val :: "number list"
  var :: "number list"

text \<open>
  \<^verbatim>\<open>Object.cut_to_timespan\<close> calls \<^verbatim>\<open>ValVar.cut_to_timespan\<close>, which mutates the
  pair in place and may raise. The object's functions below take this method as a
  parameter of the following type: the pair after the call and the exception raised,
  if any.
\<close>

type_synonym ValVar_cut = "ValVar \<Rightarrow> int \<Rightarrow> int \<Rightarrow> ValVar \<times> error option"

section \<open>ObjectClassification\<close>

record ObjectClassification =
  val :: "number list"
  confidence :: "number list"

text \<open>
  The validator \<^verbatim>\<open>check_confidence_values\<close>: an assertion that the array is empty
  or that every element lies in [0, 1].
\<close>

definition check_confidence_values :: "number list \<Rightarrow> error + number list" where
  "check_confidence_values v =
     (if length v = 0 \<or> list_all (\<lambda>x. 0 \<le> x \<and> x \<le> 1) v then Inr v
      else Inl AssertionError)"

text \<open>
  The validator \<^verbatim>\<open>check_array_length\<close>: it warns when the two lengths differ and
  returns the array in every case. The result pairs the warnings with the value.
\<close>

definition check_array_length :: "number list \<Rightarrow> number list \<Rightarrow> warning list \<times> number list" where
  "check_array_length v values_val =
     (if py_len v \<noteq> py_len values_val then ([UserWarning], v) else ([], v))"

text \<open>
  Validated construction \<^verbatim>\<open>ObjectClassification(val=..., confidence=...)\<close>. The
  fields are validated in declaration order. \<^verbatim>\<open>val\<close> is a list of enumeration
  members: each element must be a valid code (\<open>member\<close>). The validators of
  \<^verbatim>\<open>confidence\<close> run in the order of their definition and stop at the first one
  that raises; an exception raised by a validator surfaces as a validation error.
  When \<^verbatim>\<open>val\<close> is invalid it is absent from \<^verbatim>\<open>values\<close>, so
  \<^verbatim>\<open>check_array_length\<close> raises before it can warn.
  The result pairs the warnings emitted with the outcome.
\<close>

definition ObjectClassification_init ::
  "(number \<Rightarrow> bool) \<Rightarrow> number list \<Rightarrow> number list
     \<Rightarrow> warning list \<times> (error + ObjectClassification)" where
  "ObjectClassification_init member val_arg confidence_arg =
     (if \<not> list_all member val_arg then ([], Inl ValidationError)
      else (case check_confidence_values confidence_arg of
              Inl e \<Rightarrow> ([], Inl ValidationError)
            | Inr v \<Rightarrow>
                (case check_array_length v val_arg of
                   (ws, v') \<Rightarrow>
                     (ws, Inr \<lparr>ObjectClassification.val = val_arg, confidence = v'\<rparr>))))"

text \<open>
  \<^verbatim>\<open>ObjectClassification.cut_to_timespan\<close> mutates the record in place and may raise
  after the labels have been narrowed: the result is the record after the call,
  paired with the exception raised, if any.
\<close>

definition ObjectClassification_cut_to_timespan ::
  "ObjectClassification \<Rightarrow> int \<Rightarrow> int \<Rightarrow> ObjectClassification \<times> error option" where
  "ObjectClassification_cut_to_timespan self birth death =
     (if \<not> birth \<ge> 0 then (self, Some AssertionError)
      else if \<not> birth \<le> death then (self, Some AssertionError)
      else
        (case (if py_len (ObjectClassification.val self) > 0
               then (if \<not> py_len (ObjectClassification.val self) > birth
                     then (self, Some AssertionError)
                     else if \<not> py_len (ObjectClassification.val self) > death
                     then (self, Some AssertionError)
                     else (self\<lparr>ObjectClassification.val :=
                                   py_slice (ObjectClassification.val self) birth (death + 1)\<rparr>,
                           None))
               else (self, None)) of
           (self1, Some e) \<Rightarrow> (self1, Some e)
         | (self1, None) \<Rightarrow>
             if py_len (confidence self1) > 0
             then (if \<not> py_len (confidence self1) > birth
                   then (self1, Some AssertionError)
                   else if \<not> py_len (confidence self1) > death
                   then (self1, Some AssertionError)
                   else (self1\<lparr>confidence := py_slice (confidence self1) birth (death + 1)\<rparr>,
                         None))
             else (self1, None)))"

section \<open>Object\<close>

text \<open>
  The fields \<^verbatim>\<open>id\<close> and \<^verbatim>\<open>length\<close> are named \<open>id_field\<close> and \<open>length_field\<close>,
  as \<open>id\<close> and \<open>length\<close> are constants of HOL.
\<close>

record Object =
  id_field :: string
  birth_stamp :: pyint
  heading :: ValVar
  width :: ValVar
  height :: ValVar
  length_field :: ValVar
  rcs :: "number list"
  age :: "number list"
  tracking_point :: "number list"
  confidence_of_existence :: "number list"
  movement_classification :: "number list"
  meas_state :: "number list"
  dist_longitudinal :: ValVar
  dist_lateral :: ValVar
  dist_z :: ValVar
  rel_vel_longitudinal :: ValVar
  rel_vel_lateral :: ValVar
  abs_vel_longitudinal :: ValVar
  abs_vel_lateral :: ValVar
  rel_acc_longitudinal :: ValVar
  rel_acc_lateral :: ValVar
  abs_acc_longitudinal :: ValVar
  abs_acc_lateral :: ValVar
  object_classification :: ObjectClassification

definition Object_len :: "Object \<Rightarrow> int" where
  "Object_len self = py_len (ValVar.val (dist_lateral self))"

definition Object_end :: "Object \<Rightarrow> pyint" where
  "Object_end self = pyint_add (birth_stamp self) (Object_len self)"

definition in_timespan :: "Object \<Rightarrow> int \<Rightarrow> int \<Rightarrow> bool" where
  "in_timespan obj birth death =
     (birth < int_of (pyint_add (birth_stamp obj) (py_len (ValVar.val (dist_lateral obj))))
      \<and> death \<ge> int_of (birth_stamp obj))"

text \<open>
  \<^verbatim>\<open>cut_to_timespan\<close> walks \<^verbatim>\<open>vars(self).items()\<close> and dispatches on the class of
  each value. An attribute value is one of the following kinds; \<open>vars_Object\<close> is the
  instance dictionary, in the order in which the fields are declared.
\<close>

datatype attr =
    AStr string
  | AInt pyint
  | AValVar ValVar
  | AObjectClassification ObjectClassification
  | ANdarray "number list"
  | AList "number list"

definition vars_Object :: "Object \<Rightarrow> (string \<times> attr) list" where
  "vars_Object self =
     [(''id'', AStr (id_field self)),
      (''birth_stamp'', AInt (birth_stamp self)),
      (''heading'', AValVar (heading self)),
      (''width'', AValVar (width self)),
      (''height'', AValVar (height self)),
      (''length'', AValVar (length_field self)),
      (''rcs'', ANdarray (rcs self)),
      (''age'', ANdarray (age self)),
      (''tracking_point'', AList (tracking_point self)),
      (''confidence_of_existence'', ANdarray (confidence_of_existence self)),
      (''movement_classification'', AList (movement_classification self)),
      (''meas_state'', AList (meas_state self)),
      (''dist_longitudinal'', AValVar (dist_longitudinal self)),
      (''dist_lateral'', AValVar (dist_lateral self)),
      (''dist_z'', AValVar (dist_z self)),
      (''rel_vel_longitudinal'', AValVar (rel_vel_longitudinal self)),
      (''rel_vel_lateral'', AValVar (rel_vel_lateral self)),
      (''abs_vel_longitudinal'', AValVar (abs_vel_longitudinal self)),
      (''abs_vel_lateral'', AValVar (abs_vel_lateral self)),
      (''rel_acc_longitudinal'', AValVar (rel_acc_longitudinal self)),
      (''rel_acc_lateral'', AValVar (rel_acc_lateral self)),
      (''abs_acc_longitudinal'', AValVar (abs_acc_longitudinal self)),
      (''abs_acc_lateral'', AValVar (abs_acc_lateral self)),
      (''object_classification'', AObjectClassification (object_classification self))]"

text \<open>
  \<^verbatim>\<open>setattr(self, k, v)\<close>, and the write-back of a nested record that was mutated in
  place. The loop only ever stores a value of the kind the field already holds; for
  any other pair of name and kind the record is returned as it is.
\<close>

primrec setattr_Object :: "Object \<Rightarrow> string \<Rightarrow> attr \<Rightarrow> Object" where
  "setattr_Object self k (AStr s) =
     (if k = ''id'' then self\<lparr>id_field := s\<rparr> else self)"
| "setattr_Object self k (AInt i) =
     (if k = ''birth_stamp'' then self\<lparr>birth_stamp := i\<rparr> else self)"
| "setattr_Object self k (AValVar v) =
     (if k = ''heading'' then self\<lparr>heading := v\<rparr>
      else if k = ''width'' then self\<lparr>width := v\<rparr>
      else if k = ''height'' then self\<lparr>height := v\<rparr>
      else if k = ''length'' then self\<lparr>length_field := v\<rparr>
      else if k = ''dist_longitudinal'' then self\<lparr>dist_longitudinal := v\<rparr>
      else if k = ''dist_lateral'' then self\<lparr>dist_lateral := v\<rparr>
      else if k = ''dist_z'' then self\<lparr>dist_z := v\<rparr>
      else if k = ''rel_vel_longitudinal'' then self\<lparr>rel_vel_longitudinal := v\<rparr>
      else if k = ''rel_vel_lateral'' then self\<lparr>rel_vel_lateral := v\<rparr>
      else if k = ''abs_vel_longitudinal'' then self\<lparr>abs_vel_longitudinal := v\<rparr>
      else if k = ''abs_vel_lateral'' then self\<lparr>abs_vel_lateral := v\<rparr>
      else if k = ''rel_acc_longitudinal'' then self\<lparr>rel_acc_longitudinal := v\<rparr>
      else if k = ''rel_acc_lateral'' then self\<lparr>rel_acc_lateral := v\<rparr>
      else if k = ''abs_acc_longitudinal'' then self\<lparr>abs_acc_longitudinal := v\<rparr>
      else if k = ''abs_acc_lateral'' then self\<lparr>abs_acc_lateral := v\<rparr>
      else self)"
| "setattr_Object self k (AObjectClassification c) =
     (if k = ''object_classification'' then self\<lparr>object_classification := c\<rparr> else self)"
| "setattr_Object self k (ANdarray a) =
     (if k = ''rcs'' then self\<lparr>rcs := a\<rparr>
      else if k = ''age'' then self\<lparr>age := a\<rparr>
      else if k = ''confidence_of_existence'' then self\<lparr>confidence_of_existence := a\<rparr>
      else self)"
| "setattr_Object self k (AList l) =
     (if k = ''tracking_point'' then self\<lparr>tracking_point := l\<rparr>
      else if k = ''movement_classification'' then self\<lparr>movement_classification := l\<rparr>
      else if k = ''meas_state'' then self\<lparr>meas_state := l\<rparr>
      else self)"

text \<open>
  The body of the loop of \<^verbatim>\<open>cut_to_timespan\<close> for one key of \<^verbatim>\<open>vars(self)\<close>:
  the value of the key is read when the key is reached, and the branch is chosen by
  the class of the value. \<open>vcut\<close> is the method \<^verbatim>\<open>ValVar.cut_to_timespan\<close>.
  A nested cut works in place, so what it has done to its record is kept also when
  it raises.
\<close>

definition cut_field ::
  "ValVar_cut \<Rightarrow> int \<Rightarrow> int \<Rightarrow> Object \<Rightarrow> string \<Rightarrow> Object \<times> error option" where
  "cut_field vcut birth death self k =
     (case map_of (vars_Object self) k of
        Some (AValVar v) \<Rightarrow>
          (case vcut v birth death of
             (v', e) \<Rightarrow> (setattr_Object self k (AValVar v'), e))
      | Some (AObjectClassification c) \<Rightarrow>
          (case ObjectClassification_cut_to_timespan c birth death of
             (c', e) \<Rightarrow> (setattr_Object self k (AObjectClassification c'), e))
      | Some (ANdarray a) \<Rightarrow>
          (setattr_Object self k (ANdarray (py_slice a birth (death + 1))), None)
      | Some (AList l) \<Rightarrow>
          (setattr_Object self k (AList (py_slice l birth (death + 1))), None)
      | _ \<Rightarrow> (self, None))"

text \<open>The loop over the keys: an exception of a nested cut ends it.\<close>

primrec cut_fields ::
  "ValVar_cut \<Rightarrow> string list \<Rightarrow> int \<Rightarrow> int \<Rightarrow> Object \<Rightarrow> Object \<times> error option" where
  "cut_fields vcut [] birth death self = (self, None)"
| "cut_fields vcut (k # ks) birth death self =
     (case cut_field vcut birth death self k of
        (self', Some e) \<Rightarrow> (self', Some e)
      | (self', None) \<Rightarrow> cut_fields vcut ks birth death self')"

text \<open>
  \<^verbatim>\<open>Object.cut_to_timespan\<close>: three assertions, the shift of \<^verbatim>\<open>birth_stamp\<close>, then
  the loop. The result is the object after the call, paired with the exception
  raised, if any.
\<close>

definition cut_to_timespan ::
  "ValVar_cut \<Rightarrow> Object \<Rightarrow> int \<Rightarrow> int \<Rightarrow> Object \<times> error option" where
  "cut_to_timespan vcut self birth death =
     (if \<not> birth \<ge> 0 then (self, Some AssertionError)
      else if \<not> birth \<le> death then (self, Some AssertionError)
      else if \<not> Object_len self > death then (self, Some AssertionError)
      else (let self1 = self\<lparr>birth_stamp := pyint_add (birth_stamp self) birth\<rparr>
            in cut_fields vcut (map fst (vars_Object self1)) birth death self1))"

text \<open>
  Modelled from the spec: \<^verbatim>\<open>ValVar.cut_to_timespan\<close>, which is missing from the
  sources. The spec asks of it \<^verbatim>\<open>cut_to_timespan(birth, death)\<close> with an inclusive
  end: it narrows both series to the index range [birth, death] and, as the spec
  names no failure for it, never raises.
\<close>

definition ValVar_cut_to_timespan :: ValVar_cut where
  "ValVar_cut_to_timespan self birth death =
     (self\<lparr>ValVar.val := py_slice (ValVar.val self) birth (death + 1),
           var := py_slice (var self) birth (death + 1)\<rparr>, None)"

text \<open>
  The time-indexed series of an object, as the spec lists them: both series of each
  of the fifteen \<^verbatim>\<open>ValVar\<close> fields, the six raw sequences, and both sequences of
  the nested classification.
\<close>

definition ValVar_fields :: "Object \<Rightarrow> ValVar list" where
  "ValVar_fields self =
     [heading self, width self, height self, length_field self,
      dist_longitudinal self, dist_lateral self, dist_z self,
      rel_vel_longitudinal self, rel_vel_lateral self,
      abs_vel_longitudinal self, abs_vel_lateral self,
      rel_acc_longitudinal self, rel_acc_lateral self,
      abs_acc_longitudinal self, abs_acc_lateral self]"

definition raw_sequences :: "Object \<Rightarrow> number list list" where
  "raw_sequences self =
     [rcs self, age self, tracking_point self, confidence_of_existence self,
      movement_classification self, meas_state self]"

definition time_indexed_lengths :: "Object \<Rightarrow> int list" where
  "time_indexed_lengths self =
     map (\<lambda>v. py_len (ValVar.val v)) (ValVar_fields self)
     @ map (\<lambda>v. py_len (var v)) (ValVar_fields self)
     @ map py_len (raw_sequences self)
     @ [py_len (ObjectClassification.val (object_classification self)),
        py_len (confidence (object_classification self))]"

text \<open>An object that lives for five samples from global index 10 on.\<close>

definition example_ValVar :: ValVar where
  "example_ValVar = \<lparr>ValVar.val = [0, 1, 2, 3, 4], var = [1, 1, 1, 1, 1]\<rparr>"

definition example_Object :: Object where
  "example_Object =
     \<lparr>id_field = ''RU-1'', birth_stamp = PyInt 10,
      heading = example_ValVar, width = example_ValVar, height = example_ValVar,
      length_field = example_ValVar,
      rcs = [5, 6, 7, 8, 9], age = [0, 1, 2, 3, 4], tracking_point = [1, 1, 1, 1, 1],
      confidence_of_existence = [1, 1, 1, 1, 1], movement_classification = [2, 2, 2, 2, 2],
      meas_state = [3, 3, 3, 3, 3],
      dist_longitudinal = example_ValVar, dist_lateral = example_ValVar,
      dist_z = example_ValVar,
      rel_vel_longitudinal = example_ValVar, rel_vel_lateral = example_ValVar,
      abs_vel_longitudinal = example_ValVar, abs_vel_lateral = example_ValVar,
      rel_acc_longitudinal = example_ValVar, rel_acc_lateral = example_ValVar,
      abs_acc_longitudinal = example_ValVar, abs_acc_lateral = example_ValVar,
      object_classification =
        \<lparr>ObjectClassification.val = [4, 4, 4, 4, 4], confidence = [0, 1, 1, 1, 1]\<rparr>\<rparr>"

text \<open>
  Two notions for reasoning about the loop: whether every step of the loop over the
  given keys ends without an exception, and the object after these steps.
\<close>

primrec cut_fields_ok :: "ValVar_cut \<Rightarrow> string list \<Rightarrow> int \<Rightarrow> int \<Rightarrow> Object \<Rightarrow> bool" where
  "cut_fields_ok vcut [] birth death self = True"
| "cut_fields_ok vcut (k # ks) birth death self =
     (snd (cut_field vcut birth death self k) = None
      \<and> cut_fields_ok vcut ks birth death (fst (cut_field vcut birth death self k)))"

primrec cut_fields_all :: "ValVar_cut \<Rightarrow> string list \<Rightarrow> int \<Rightarrow> int \<Rightarrow> Object \<Rightarrow> Object" where
  "cut_fields_all vcut [] birth death self = self"
| "cut_fields_all vcut (k # ks) birth death self =
     cut_fields_all vcut ks birth death (fst (cut_field vcut birth death self k))"

definition example_Object_short_rcs :: Object where
  "example_Object_short_rcs = example_Object\<lparr>rcs := [5]\<rparr>"

text \<open>
  \<open>no_wrap a n\<close>: the sum \<open>a + n\<close> is the sum of the integers. A Python \<^verbatim>\<open>int\<close> never
  wraps; a \<^verbatim>\<open>numpy.int64\<close> does not when the sum lies inside the 64-bit range.
\<close>

primrec no_wrap :: "pyint \<Rightarrow> int \<Rightarrow> bool" where
  "no_wrap (PyInt a) n = True"
| "no_wrap (NpInt64 a) n = (- (2 ^ 63) \<le> a + n \<and> a + n < 2 ^ 63)"

text \<open>
  The spec's words for \<^verbatim>\<open>in_timespan\<close>: the object's global extent
  \<open>[birth_stamp, birth_stamp + len)\<close> overlaps the closed window \<open>[birth, death]\<close>. Two
  ranges of integers have a member in common when the larger lower end is at most the
  smaller upper end.
\<close>

definition extent_overlaps_window :: "Object \<Rightarrow> int \<Rightarrow> int \<Rightarrow> bool" where
  "extent_overlaps_window obj birth death \<longleftrightarrow>
     max (int_of (birth_stamp obj)) birth
       \<le> min (int_of (birth_stamp obj) + Object_len obj - 1) death"

text \<open>\<^verbatim>\<open>Object()\<close>: every field at the default the class declares.\<close>

definition Object_default :: Object where
  "Object_default =
     \<lparr>id_field = ''RU-1'', birth_stamp = PyInt 0,
      heading = \<lparr>ValVar.val = [], var = []\<rparr>, width = \<lparr>ValVar.val = [], var = []\<rparr>,
      height = \<lparr>ValVar.val = [], var = []\<rparr>, length_field = \<lparr>ValVar.val = [], var = []\<rparr>,
      rcs = [], age = [], tracking_point = [], confidence_of_existence = [],
      movement_classification = [], meas_state = [],
      dist_longitudinal = \<lparr>ValVar.val = [], var = []\<rparr>,
      dist_lateral = \<lparr>ValVar.val = [], var = []\<rparr>,
      dist_z = \<lparr>ValVar.val = [], var = []\<rparr>,
      rel_vel_longitudinal = \<lparr>ValVar.val = [], var = []\<rparr>,
      rel_vel_lateral = \<lparr>ValVar.val = [], var = []\<rparr>,
      abs_vel_longitudinal = \<lparr>ValVar.val = [], var = []\<rparr>,
      abs_vel_lateral = \<lparr>ValVar.val = [], var = []\<rparr>,
      rel_acc_longitudinal = \<lparr>ValVar.val = [], var = []\<rparr>,
      rel_acc_lateral = \<lparr>ValVar.val = [], var = []\<rparr>,
      abs_acc_longitudinal = \<lparr>ValVar.val = [], var = []\<rparr>,
      abs_acc_lateral = \<lparr>ValVar.val = [], var = []\<rparr>,
      object_classification = \<lparr>ObjectClassification.val = [], confidence = []\<rparr>\<rparr>"

text \<open>
  The example object as a load without validation leaves it when the stored
  \<^verbatim>\<open>birthStamp\<close> is the largest 64-bit integer: \<^verbatim>\<open>birth_stamp\<close> is a \<^verbatim>\<open>numpy.int64\<close>.
\<close>

definition example_Object_int64 :: Object where
  "example_Object_int64 = example_Object\<lparr>birth_stamp := NpInt64 (2 ^ 63 - 1)\<rparr>"

section \<open>Settings\<close>

text \<open>
  \<^verbatim>\<open>omega_format/settings.py\<close>. A settings object is a pydantic \<^verbatim>\<open>BaseSettings\<close>
  instance; it is modelled by its instance dictionary, from attribute names to
  values. The class \<^verbatim>\<open>Settings\<close> declares two fields, both with default \<^verbatim>\<open>True\<close>
  (the environment may override the defaults when the object is built).
\<close>

datatype pyval =
    PNone
  | PBool bool
  | PInt int
  | PStr string
  | PDict "(string \<times> pyval) list"

type_synonym Settings = "string \<rightharpoonup> pyval"

definition Settings_fields :: "string list" where
  "Settings_fields = [''ALLOW_MISSING_TL_GROUPS'', ''ALLOW_INCOMPLETE_META_DATA'']"

definition Settings_default :: Settings where
  "Settings_default =
     [''ALLOW_MISSING_TL_GROUPS'' \<mapsto> PBool True, ''ALLOW_INCOMPLETE_META_DATA'' \<mapsto> PBool True]"

text \<open>
  \<^verbatim>\<open>setattr(self.settings, k, v)\<close>: pydantic stores the value, without validating it,
  when \<^verbatim>\<open>k\<close> is a declared field, and raises \<^verbatim>\<open>ValueError\<close> otherwise. The result is
  the settings object after the call and the exception raised, if any.
\<close>

definition setattr_Settings :: "Settings \<Rightarrow> string \<Rightarrow> pyval \<Rightarrow> Settings \<times> error option" where
  "setattr_Settings settings k v =
     (if k \<in> set Settings_fields then (settings(k \<mapsto> v), None)
      else (settings, Some ValueError))"

text \<open>
  \<^verbatim>\<open>SettingsGetter.set(**kwargs)\<close>, on the settings object the getter holds. The keyword
  arguments are a dictionary: a list of pairs with distinct keys, in call order.
\<close>

primrec SettingsGetter_set :: "Settings \<Rightarrow> (string \<times> pyval) list \<Rightarrow> Settings \<times> error option" where
  "SettingsGetter_set settings [] = (settings, None)"
| "SettingsGetter_set settings (kv # kwargs) =
     (if snd kv \<noteq> PNone
      then (case setattr_Settings settings (fst kv) (snd kv) of
              (settings', Some e) \<Rightarrow> (settings', Some e)
            | (settings', None) \<Rightarrow> SettingsGetter_set settings' kwargs)
      else SettingsGetter_set settings kwargs)"

text \<open>
  The attribute read \<^verbatim>\<open>get_settings().hdf5_compress_args\<close> of the writers, unpacked
  with \<^verbatim>\<open>**\<close>: a missing attribute raises \<^verbatim>\<open>AttributeError\<close>, a value that is not a
  mapping raises \<^verbatim>\<open>TypeError\<close>.
\<close>

definition hdf5_compress_args :: "Settings \<Rightarrow> error + (string \<times> pyval) list" where
  "hdf5_compress_args settings =
     (case settings ''hdf5_compress_args'' of
        None \<Rightarrow> Inl AttributeError
      | Some (PDict kw) \<Rightarrow> Inr kw
      | Some _ \<Rightarrow> Inl TypeError)"

section \<open>Hierarchical store\<close>

text \<open>
  The \<^verbatim>\<open>h5py\<close> container, as far as the loaders and savers use it: a group has a
  name (its path), scalar attributes and named members, each a dataset or a subgroup.
  An integer attribute is a signed or an unsigned 64-bit integer. A dataset holds a
  sequence of numbers.
\<close>

datatype scalar = Int64 int | UInt64 int

datatype Group = Group (name: string) (attrs: "string \<rightharpoonup> scalar") (members: "string \<rightharpoonup> member")
  and member = Dataset "number list" | Subgroup Group

text \<open>
  What \<^verbatim>\<open>h5py\<close> does with the keyword arguments of \<^verbatim>\<open>create_dataset\<close> is a parameter of
  the model: given the keyword arguments and the data, the exception it raises (for a
  keyword or a value it does not accept) or the values the dataset holds afterwards (a
  \<^verbatim>\<open>dtype\<close> or a scale-offset option changes them).
\<close>

type_synonym dataset_kwds = "(string \<times> pyval) list \<Rightarrow> number list \<Rightarrow> error + number list"

definition empty_Group :: "string \<Rightarrow> Group" where
  "empty_Group n = Group n Map.empty Map.empty"

definition child_name :: "string \<Rightarrow> string \<Rightarrow> string" where
  "child_name parent n = (if parent = ''/'' then parent @ n else parent @ ''/'' @ n)"

definition bind_result :: "error + 'a \<Rightarrow> ('a \<Rightarrow> error + 'b) \<Rightarrow> error + 'b" where
  "bind_result r f = (case r of Inl e \<Rightarrow> Inl e | Inr a \<Rightarrow> f a)"

text \<open>
  The conversion of an integer to a stored scalar, by \<^verbatim>\<open>numpy\<close>: a Python \<^verbatim>\<open>int\<close> inside
  the signed 64-bit range becomes a signed scalar, one from \<open>2^63\<close> up to \<open>2^64 - 1\<close> an
  unsigned one, and any other has no type the container can store (\<^verbatim>\<open>TypeError\<close>).
\<close>

primrec numpy_scalar :: "pyint \<Rightarrow> error + scalar" where
  "numpy_scalar (PyInt b) =
     (if - (2 ^ 63) \<le> b \<and> b < 2 ^ 63 then Inr (Int64 b)
      else if 2 ^ 63 \<le> b \<and> b < 2 ^ 64 then Inr (UInt64 b)
      else Inl TypeError)"
| "numpy_scalar (NpInt64 a) = Inr (Int64 a)"

text \<open>\<^verbatim>\<open>group.attrs.create(n, data=v)\<close>: creates the attribute or overwrites it.\<close>

definition attrs_create :: "Group \<Rightarrow> string \<Rightarrow> pyint \<Rightarrow> error + Group" where
  "attrs_create grp n v =
     bind_result (numpy_scalar v)
       (\<lambda>x. Inr (Group (name grp) ((attrs grp)(n \<mapsto> x)) (members grp)))"

text \<open>\<^verbatim>\<open>group.attrs[n]\<close>: a missing attribute raises \<^verbatim>\<open>KeyError\<close>.\<close>

definition attrs_getitem :: "Group \<Rightarrow> string \<Rightarrow> error + scalar" where
  "attrs_getitem grp n = (case attrs grp n of None \<Rightarrow> Inl KeyError | Some v \<Rightarrow> Inr v)"

text \<open>
  \<^verbatim>\<open>x.astype(int)\<close>, the value of the \<^verbatim>\<open>numpy.int64\<close> it returns: an unsigned scalar
  from \<open>2^63\<close> on wraps around to a negative one.
\<close>

primrec astype_int :: "scalar \<Rightarrow> int" where
  "astype_int (Int64 a) = a"
| "astype_int (UInt64 a) = wrap_int64 a"

text \<open>
  \<^verbatim>\<open>group.create_dataset(n, data=d, **kw)\<close>: the keyword arguments are checked and
  applied to the data first (\<open>h5\<close>), and a name already in use raises \<^verbatim>\<open>ValueError\<close>.
  The result is the group after the call.
\<close>

definition create_dataset ::
  "dataset_kwds \<Rightarrow> Group \<Rightarrow> string \<Rightarrow> number list \<Rightarrow> (string \<times> pyval) list
     \<Rightarrow> error + Group" where
  "create_dataset h5 grp n d kw =
     bind_result (h5 kw d)
       (\<lambda>stored. if members grp n \<noteq> None then Inl ValueError
                 else Inr (Group (name grp) (attrs grp) ((members grp)(n \<mapsto> Dataset stored))))"

text \<open>
  The statement \<^verbatim>\<open>group.create_dataset(n, data=d, **get_settings().hdf5_compress_args)\<close>:
  the settings are read before the call is made.
\<close>

definition create_dataset_compressed ::
  "dataset_kwds \<Rightarrow> Settings \<Rightarrow> Group \<Rightarrow> string \<Rightarrow> number list \<Rightarrow> error + Group" where
  "create_dataset_compressed h5 settings grp n d =
     bind_result (hdf5_compress_args settings) (\<lambda>kw. create_dataset h5 grp n d kw)"

text \<open>
  The statement \<^verbatim>\<open>x.to_hdf5(group.create_group(n))\<close>: a name already in use raises
  \<^verbatim>\<open>ValueError\<close>; otherwise the child starts empty, \<open>to_hdf5\<close> fills it, and the result
  is the parent holding the filled child. (When \<open>to_hdf5\<close> raises, the exception is the
  result: what was written so far is not tracked.)
\<close>

definition create_group_to_hdf5 ::
  "Group \<Rightarrow> string \<Rightarrow> (Group \<Rightarrow> error + Group) \<Rightarrow> error + Group" where
  "create_group_to_hdf5 grp n to_hdf5 =
     (if members grp n \<noteq> None then Inl ValueError
      else bind_result (to_hdf5 (empty_Group (child_name (name grp) n)))
             (\<lambda>child. Inr (Group (name grp) (attrs grp)
                              ((members grp)(n \<mapsto> Subgroup child)))))"

text \<open>
  \<^verbatim>\<open>group[n][()]\<close>, the whole dataset named \<open>n\<close>: a missing name raises \<^verbatim>\<open>KeyError\<close>,
  and a subgroup cannot be indexed with \<^verbatim>\<open>()\<close> (\<^verbatim>\<open>TypeError\<close>).
\<close>

definition getitem_dataset :: "Group \<Rightarrow> string \<Rightarrow> error + number list" where
  "getitem_dataset grp n =
     (case members grp n of
        None \<Rightarrow> Inl KeyError
      | Some (Dataset d) \<Rightarrow> Inr d
      | Some (Subgroup g) \<Rightarrow> Inl TypeError)"

text \<open>
  \<^verbatim>\<open>group[n]\<close> where the loader goes on to read members of the result by name: a
  missing name raises \<^verbatim>\<open>KeyError\<close>, and a dataset has no members to read by name
  (\<^verbatim>\<open>ValueError\<close>).
\<close>

definition getitem_group :: "Group \<Rightarrow> string \<Rightarrow> error + Group" where
  "getitem_group grp n =
     (case members grp n of
        None \<Rightarrow> Inl KeyError
      | Some (Subgroup g) \<Rightarrow> Inr g
      | Some (Dataset d) \<Rightarrow> Inl ValueError)"

text \<open>\<^verbatim>\<open>s.rpartition('/')[-1]\<close>: what follows the last \<^verbatim>\<open>/\<close>, or all of \<open>s\<close>.\<close>

definition rpartition_last :: "string \<Rightarrow> string" where
  "rpartition_last s = rev (takeWhile (\<lambda>c. c \<noteq> CHR ''/'') (rev s))"

section \<open>Loading and saving\<close>

text \<open>
  The enumerations of \<^verbatim>\<open>PerceptionTypes\<close> are not part of the sources at hand: each is
  given by the predicate that tells its valid codes. \<^verbatim>\<open>list(map(E, xs))\<close> raises
  \<^verbatim>\<open>ValueError\<close> at the first element that is no code of \<open>E\<close>.
\<close>

record PerceptionTypes =
  is_ObjectClassification :: "number \<Rightarrow> bool"
  is_TrackingPoint :: "number \<Rightarrow> bool"
  is_MovementClassification :: "number \<Rightarrow> bool"
  is_MeasState :: "number \<Rightarrow> bool"

definition list_map_enum :: "(number \<Rightarrow> bool) \<Rightarrow> number list \<Rightarrow> error + number list" where
  "list_map_enum member xs = (if list_all member xs then Inr xs else Inl ValueError)"

text \<open>
  \<^verbatim>\<open>ValVar.to_hdf5\<close> and \<^verbatim>\<open>ValVar.from_hdf5\<close> are not part of the sources at hand. The
  savers and loaders of the object take them as parameters of the following types: the
  group after the save or the exception raised, and the pair loaded or the exception
  raised.
\<close>

type_synonym ValVar_to = "ValVar \<Rightarrow> Group \<Rightarrow> error + Group"

type_synonym ValVar_from = "Group \<Rightarrow> bool \<Rightarrow> error + ValVar"

text \<open>
  Modelled from the spec: \<^verbatim>\<open>ValVar.to_hdf5\<close>, which is missing from the sources. The spec
  names \<^verbatim>\<open>ValVar\<close> a leaf type that implements the same save contract as the
  classification: the two series are written as two datasets of the node, with the
  compression configuration. The dataset names are chosen here.
\<close>

definition ValVar_to_hdf5 :: "dataset_kwds \<Rightarrow> Settings \<Rightarrow> ValVar_to" where
  "ValVar_to_hdf5 h5 settings self grp =
     bind_result (create_dataset_compressed h5 settings grp ''value'' (ValVar.val self))
       (\<lambda>g. create_dataset_compressed h5 settings g ''variance'' (var self))"

text \<open>\<^verbatim>\<open>ObjectClassification.to_hdf5\<close> and \<^verbatim>\<open>ObjectClassification.from_hdf5\<close>.\<close>

definition ObjectClassification_to_hdf5 ::
  "dataset_kwds \<Rightarrow> Settings \<Rightarrow> ObjectClassification \<Rightarrow> Group \<Rightarrow> error + Group" where
  "ObjectClassification_to_hdf5 h5 settings self grp =
     bind_result
       (create_dataset_compressed h5 settings grp ''val'' (ObjectClassification.val self))
       (\<lambda>g. create_dataset_compressed h5 settings g ''confidence'' (confidence self))"

definition ObjectClassification_from_hdf5 ::
  "PerceptionTypes \<Rightarrow> Group \<Rightarrow> bool \<Rightarrow> warning list \<times> (error + ObjectClassification)" where
  "ObjectClassification_from_hdf5 pt grp validate =
     (case bind_result (getitem_dataset grp ''val'')
             (\<lambda>raw. bind_result (list_map_enum (is_ObjectClassification pt) raw)
                (\<lambda>v. bind_result (getitem_dataset grp ''confidence'')
                   (\<lambda>c. Inr (v, c)))) of
        Inl e \<Rightarrow> ([], Inl e)
      | Inr (v, c) \<Rightarrow>
          (if validate then ObjectClassification_init (is_ObjectClassification pt) v c
           else ([], Inr \<lparr>ObjectClassification.val = v, confidence = c\<rparr>)))"

text \<open>
  Construction of an \<^verbatim>\<open>Object\<close> from values of the field types, \<^verbatim>\<open>cls(...)\<close> when
  \<open>validate\<close> holds and \<^verbatim>\<open>cls.construct(...)\<close> otherwise. Validation coerces the elements
  of the three enumeration lists and converts \<^verbatim>\<open>birth_stamp\<close> to a Python \<^verbatim>\<open>int\<close>; no
  field of \<^verbatim>\<open>Object\<close> has a validator of its own, and a nested model that is already an
  instance is taken as it is. \<^verbatim>\<open>cls.construct\<close> stores the values as they are.
\<close>

definition Object_init :: "PerceptionTypes \<Rightarrow> bool \<Rightarrow> Object \<Rightarrow> error + Object" where
  "Object_init pt validate kwargs =
     (if validate \<and> \<not> (list_all (is_TrackingPoint pt) (tracking_point kwargs)
                        \<and> list_all (is_MovementClassification pt) (movement_classification kwargs)
                        \<and> list_all (is_MeasState pt) (meas_state kwargs))
      then Inl ValidationError
      else if validate then Inr (kwargs\<lparr>birth_stamp := PyInt (int_of (birth_stamp kwargs))\<rparr>)
      else Inr kwargs)"

text \<open>
  \<^verbatim>\<open>Object.to_hdf5\<close>. The settings object that \<^verbatim>\<open>get_settings()\<close> returns is an argument,
  and so are \<^verbatim>\<open>ValVar.to_hdf5\<close> (\<open>vto\<close>) and the container's treatment of keyword
  arguments (\<open>h5\<close>).
\<close>

definition Object_to_hdf5 ::
  "ValVar_to \<Rightarrow> dataset_kwds \<Rightarrow> Settings \<Rightarrow> Object \<Rightarrow> Group \<Rightarrow> error + Group" where
  "Object_to_hdf5 vto h5 settings self grp =
     bind_result (attrs_create grp ''birthStamp'' (birth_stamp self))
    (\<lambda>g. bind_result (create_group_to_hdf5 g ''heading'' (vto (heading self)))
    (\<lambda>g. bind_result (create_group_to_hdf5 g ''width'' (vto (width self)))
    (\<lambda>g. bind_result (create_group_to_hdf5 g ''height'' (vto (height self)))
    (\<lambda>g. bind_result (create_group_to_hdf5 g ''length'' (vto (length_field self)))
    (\<lambda>g. bind_result (create_dataset_compressed h5 settings g ''rcs'' (rcs self))
    (\<lambda>g. bind_result (create_dataset_compressed h5 settings g ''age'' (age self))
    (\<lambda>g. bind_result (create_dataset_compressed h5 settings g ''trackingPoint'' (tracking_point self))
    (\<lambda>g. bind_result (create_dataset_compressed h5 settings g ''confidenceOfExistence''
                         (confidence_of_existence self))
    (\<lambda>g. bind_result (create_dataset_compressed h5 settings g ''movementClassification''
                         (movement_classification self))
    (\<lambda>g. bind_result (create_dataset_compressed h5 settings g ''measState'' (meas_state self))
    (\<lambda>g. bind_result (create_group_to_hdf5 g ''distLongitudinal''
                         (vto (dist_longitudinal self)))
    (\<lambda>g. bind_result (create_group_to_hdf5 g ''distLateral''
                         (vto (dist_lateral self)))
    (\<lambda>g. bind_result (create_group_to_hdf5 g ''distZ'' (vto (dist_z self)))
    (\<lambda>g. bind_result (create_group_to_hdf5 g ''relVelLongitudinal''
                         (vto (rel_vel_longitudinal self)))
    (\<lambda>g. bind_result (create_group_to_hdf5 g ''relVelLateral''
                         (vto (rel_vel_lateral self)))
    (\<lambda>g. bind_result (create_group_to_hdf5 g ''absVelLongitudinal''
                         (vto (abs_vel_longitudinal self)))
    (\<lambda>g. bind_result (create_group_to_hdf5 g ''absVelLateral''
                         (vto (abs_vel_lateral self)))
    (\<lambda>g. bind_result (create_group_to_hdf5 g ''relAccLongitudinal''
                         (vto (rel_acc_longitudinal self)))
    (\<lambda>g. bind_result (create_group_to_hdf5 g ''relAccLateral''
                         (vto (rel_acc_lateral self)))
    (\<lambda>g. bind_result (create_group_to_hdf5 g ''absAccLongitudinal''
                         (vto (abs_acc_longitudinal self)))
    (\<lambda>g. bind_result (create_group_to_hdf5 g ''absAccLateral''
                         (vto (abs_acc_lateral self)))
    (\<lambda>g. create_group_to_hdf5 g ''objectClassification''
            (ObjectClassification_to_hdf5 h5 settings (object_classification self))
     ))))))))))))))))))))))"

text \<open>
  \<^verbatim>\<open>ValVar.from_hdf5(group[n], validate=validate)\<close>, with \<open>vfrom\<close> for
  \<^verbatim>\<open>ValVar.from_hdf5\<close>.
\<close>

definition getitem_ValVar :: "ValVar_from \<Rightarrow> Group \<Rightarrow> string \<Rightarrow> bool \<Rightarrow> error + ValVar" where
  "getitem_ValVar vfrom grp n validate =
     bind_result (getitem_group grp n) (\<lambda>g. vfrom g validate)"

text \<open>
  \<^verbatim>\<open>Object.from_hdf5\<close>. The keyword arguments are evaluated in the order written, the
  classification last, and only then is the object constructed. The classification is
  the one step that can warn. The \<^verbatim>\<open>id\<close> comes from the name of the group.
\<close>

definition Object_from_hdf5 ::
  "ValVar_from \<Rightarrow> PerceptionTypes \<Rightarrow> Group \<Rightarrow> bool \<Rightarrow> warning list \<times> (error + Object)" where
  "Object_from_hdf5 vfrom pt grp validate =
     (case
        bind_result (Inr (rpartition_last (name grp)))
       (\<lambda>sub_group_name. bind_result (attrs_getitem grp ''birthStamp'')
       (\<lambda>birthStamp. bind_result (getitem_ValVar vfrom grp ''heading'' validate)
       (\<lambda>heading'. bind_result (getitem_ValVar vfrom grp ''width'' validate)
       (\<lambda>width'. bind_result (getitem_ValVar vfrom grp ''height'' validate)
       (\<lambda>height'. bind_result (getitem_ValVar vfrom grp ''length'' validate)
       (\<lambda>length'. bind_result (getitem_dataset grp ''rcs'')
       (\<lambda>rcs'. bind_result (getitem_dataset grp ''age'')
       (\<lambda>age'. bind_result (getitem_dataset grp ''trackingPoint'')
       (\<lambda>tracking_point'. bind_result (getitem_dataset grp ''confidenceOfExistence'')
       (\<lambda>confidence_of_existence'.
          bind_result (bind_result (getitem_dataset grp ''movementClassification'')
                         (list_map_enum (is_MovementClassification pt)))
       (\<lambda>movement_classification'.
          bind_result (bind_result (getitem_dataset grp ''measState'')
                         (list_map_enum (is_MeasState pt)))
       (\<lambda>meas_state'. bind_result (getitem_ValVar vfrom grp ''distLongitudinal'' validate)
       (\<lambda>dist_longitudinal'. bind_result (getitem_ValVar vfrom grp ''distLateral'' validate)
       (\<lambda>dist_lateral'. bind_result (getitem_ValVar vfrom grp ''distZ'' validate)
       (\<lambda>dist_z'. bind_result (getitem_ValVar vfrom grp ''relVelLongitudinal'' validate)
       (\<lambda>rel_vel_longitudinal'. bind_result (getitem_ValVar vfrom grp ''relVelLateral'' validate)
       (\<lambda>rel_vel_lateral'. bind_result (getitem_ValVar vfrom grp ''absVelLongitudinal'' validate)
       (\<lambda>abs_vel_longitudinal'. bind_result (getitem_ValVar vfrom grp ''absVelLateral'' validate)
       (\<lambda>abs_vel_lateral'. bind_result (getitem_ValVar vfrom grp ''relAccLongitudinal'' validate)
       (\<lambda>rel_acc_longitudinal'. bind_result (getitem_ValVar vfrom grp ''relAccLateral'' validate)
       (\<lambda>rel_acc_lateral'. bind_result (getitem_ValVar vfrom grp ''absAccLongitudinal'' validate)
       (\<lambda>abs_acc_longitudinal'. bind_result (getitem_ValVar vfrom grp ''absAccLateral'' validate)
       (\<lambda>abs_acc_lateral'. bind_result (getitem_group grp ''objectClassification'')
       (\<lambda>g. Inr (g, \<lambda>object_classification'.
            \<lparr>id_field = sub_group_name, birth_stamp = NpInt64 (astype_int birthStamp),
             heading = heading', width = width', height = height', length_field = length',
             rcs = rcs', age = age', tracking_point = tracking_point',
             confidence_of_existence = confidence_of_existence',
             movement_classification = movement_classification',
             meas_state = meas_state',
             dist_longitudinal = dist_longitudinal', dist_lateral = dist_lateral',
             dist_z = dist_z',
             rel_vel_longitudinal = rel_vel_longitudinal',
             rel_vel_lateral = rel_vel_lateral',
             abs_vel_longitudinal = abs_vel_longitudinal',
             abs_vel_lateral = abs_vel_lateral',
             rel_acc_longitudinal = rel_acc_longitudinal',
             rel_acc_lateral = rel_acc_lateral',
             abs_acc_longitudinal = abs_acc_longitudinal',
             abs_acc_lateral = abs_acc_lateral',
             object_classification = object_classification'\<rparr>)
        ))))))))))))))))))))))))
      of
        Inl e \<Rightarrow> ([], Inl e)
      | Inr (g, kwargs) \<Rightarrow>
          (case ObjectClassification_from_hdf5 pt g validate of
             (ws, Inl e) \<Rightarrow> (ws, Inl e)
           | (ws, Inr oc) \<Rightarrow> (ws, Object_init pt validate (kwargs oc))))"

text \<open>
  Saving an object into a fresh node named \<open>node\<close> and loading that node again, with
  validation.
\<close>

definition save_and_load ::
  "ValVar_to \<Rightarrow> ValVar_from \<Rightarrow> dataset_kwds \<Rightarrow> Settings \<Rightarrow> PerceptionTypes \<Rightarrow> Object \<Rightarrow> string
     \<Rightarrow> warning list \<times> (error + Object)" where
  "save_and_load vto vfrom h5 settings pt self node =
     (case Object_to_hdf5 vto h5 settings self (empty_Group node) of
        Inl e \<Rightarrow> ([], Inl e)
      | Inr grp \<Rightarrow> Object_from_hdf5 vfrom pt grp True)"

text \<open>
  A validly constructed object: one whose fields pass the validation of \<^verbatim>\<open>Object\<close>, and
  whose classification passes the validation of \<^verbatim>\<open>ObjectClassification\<close>.
\<close>

definition valid_Object :: "PerceptionTypes \<Rightarrow> Object \<Rightarrow> bool" where
  "valid_Object pt self \<longleftrightarrow>
     Object_init pt True self = Inr self
     \<and> snd (ObjectClassification_init (is_ObjectClassification pt)
              (ObjectClassification.val (object_classification self))
              (confidence (object_classification self)))
         = Inr (object_classification self)"

text \<open>Enumerations with the codes 0 to 4 each, for the examples.\<close>

definition example_PerceptionTypes :: PerceptionTypes where
  "example_PerceptionTypes =
     \<lparr>is_ObjectClassification = (\<lambda>x. x \<in> {0, 1, 2, 3, 4}),
      is_TrackingPoint = (\<lambda>x. x \<in> {0, 1, 2, 3, 4}),
      is_MovementClassification = (\<lambda>x. x \<in> {0, 1, 2, 3, 4}),
      is_MeasState = (\<lambda>x. x \<in> {0, 1, 2, 3, 4})\<rparr>"

section \<open>Properties\<close>

lemma vars_keys:
  "map fst (vars_Object self) =
     [''id'', ''birth_stamp'', ''heading'', ''width'', ''height'', ''length'', ''rcs'', ''age'',
      ''tracking_point'', ''confidence_of_existence'', ''movement_classification'',
      ''meas_state'', ''dist_longitudinal'', ''dist_lateral'', ''dist_z'',
      ''rel_vel_longitudinal'', ''rel_vel_lateral'', ''abs_vel_longitudinal'',
      ''abs_vel_lateral'', ''rel_acc_longitudinal'', ''rel_acc_lateral'',
      ''abs_acc_longitudinal'', ''abs_acc_lateral'', ''object_classification'']"
  by (simp add: vars_Object_def)

lemma cut_field_scalar:
  "cut_field vcut b d s ''id'' = (s, None)"
  "cut_field vcut b d s ''birth_stamp'' = (s, None)"
  by (simp_all add: cut_field_def vars_Object_def)

lemma cut_field_raw:
  "cut_field vcut b d s ''rcs'' = (s\<lparr>rcs := py_slice (rcs s) b (d + 1)\<rparr>, None)"
  "cut_field vcut b d s ''age'' = (s\<lparr>age := py_slice (age s) b (d + 1)\<rparr>, None)"
  "cut_field vcut b d s ''tracking_point''
     = (s\<lparr>tracking_point := py_slice (tracking_point s) b (d + 1)\<rparr>, None)"
  "cut_field vcut b d s ''confidence_of_existence''
     = (s\<lparr>confidence_of_existence := py_slice (confidence_of_existence s) b (d + 1)\<rparr>, None)"
  "cut_field vcut b d s ''movement_classification''
     = (s\<lparr>movement_classification := py_slice (movement_classification s) b (d + 1)\<rparr>, None)"
  "cut_field vcut b d s ''meas_state''
     = (s\<lparr>meas_state := py_slice (meas_state s) b (d + 1)\<rparr>, None)"
  by (simp_all add: cut_field_def vars_Object_def)

lemma cut_field_ValVar:
  "cut_field vcut b d s ''heading''
     = (s\<lparr>heading := fst (vcut (heading s) b d)\<rparr>, snd (vcut (heading s) b d))"
  "cut_field vcut b d s ''width''
     = (s\<lparr>width := fst (vcut (width s) b d)\<rparr>, snd (vcut (width s) b d))"
  "cut_field vcut b d s ''height''
     = (s\<lparr>height := fst (vcut (height s) b d)\<rparr>, snd (vcut (height s) b d))"
  "cut_field vcut b d s ''length''
     = (s\<lparr>length_field := fst (vcut (length_field s) b d)\<rparr>, snd (vcut (length_field s) b d))"
  "cut_field vcut b d s ''dist_longitudinal''
     = (s\<lparr>dist_longitudinal := fst (vcut (dist_longitudinal s) b d)\<rparr>,
        snd (vcut (dist_longitudinal s) b d))"
  "cut_field vcut b d s ''dist_lateral''
     = (s\<lparr>dist_lateral := fst (vcut (dist_lateral s) b d)\<rparr>, snd (vcut (dist_lateral s) b d))"
  "cut_field vcut b d s ''dist_z''
     = (s\<lparr>dist_z := fst (vcut (dist_z s) b d)\<rparr>, snd (vcut (dist_z s) b d))"
  "cut_field vcut b d s ''rel_vel_longitudinal''
     = (s\<lparr>rel_vel_longitudinal := fst (vcut (rel_vel_longitudinal s) b d)\<rparr>,
        snd (vcut (rel_vel_longitudinal s) b d))"
  "cut_field vcut b d s ''rel_vel_lateral''
     = (s\<lparr>rel_vel_lateral := fst (vcut (rel_vel_lateral s) b d)\<rparr>,
        snd (vcut (rel_vel_lateral s) b d))"
  "cut_field vcut b d s ''abs_vel_longitudinal''
     = (s\<lparr>abs_vel_longitudinal := fst (vcut (abs_vel_longitudinal s) b d)\<rparr>,
        snd (vcut (abs_vel_longitudinal s) b d))"
  "cut_field vcut b d s ''abs_vel_lateral''
     = (s\<lparr>abs_vel_lateral := fst (vcut (abs_vel_lateral s) b d)\<rparr>,
        snd (vcut (abs_vel_lateral s) b d))"
  "cut_field vcut b d s ''rel_acc_longitudinal''
     = (s\<lparr>rel_acc_longitudinal := fst (vcut (rel_acc_longitudinal s) b d)\<rparr>,
        snd (vcut (rel_acc_longitudinal s) b d))"
  "cut_field vcut b d s ''rel_acc_lateral''
     = (s\<lparr>rel_acc_lateral := fst (vcut (rel_acc_lateral s) b d)\<rparr>,
        snd (vcut (rel_acc_lateral s) b d))"
  "cut_field vcut b d s ''abs_acc_longitudinal''
     = (s\<lparr>abs_acc_longitudinal := fst (vcut (abs_acc_longitudinal s) b d)\<rparr>,
        snd (vcut (abs_acc_longitudinal s) b d))"
  "cut_field vcut b d s ''abs_acc_lateral''
     = (s\<lparr>abs_acc_lateral := fst (vcut (abs_acc_lateral s) b d)\<rparr>,
        snd (vcut (abs_acc_lateral s) b d))"
  by (simp_all add: cut_field_def vars_Object_def case_prod_beta)

lemma cut_field_classification:
  "cut_field vcut b d s ''object_classification''
     = (s\<lparr>object_classification :=
             fst (ObjectClassification_cut_to_timespan (object_classification s) b d)\<rparr>,
        snd (ObjectClassification_cut_to_timespan (object_classification s) b d))"
  by (simp add: cut_field_def vars_Object_def case_prod_beta)

lemma cut_fields_invariant:
  "(\<And>k s. k \<in> set ks \<Longrightarrow> P s \<Longrightarrow> P (fst (cut_field vcut b d s k))) \<Longrightarrow> P s \<Longrightarrow>
   P (fst (cut_fields vcut ks b d s))"
proof (induction ks arbitrary: s)
  case Nil
  then show ?case by simp
next
  case (Cons k ks)
  have step: "P (fst (cut_field vcut b d s k))"
    using Cons.prems by simp
  show ?case
  proof (cases "cut_field vcut b d s k")
    case (Pair s' e)
    with step have "P s'" by simp
    show ?thesis
    proof (cases e)
      case None
      with Pair \<open>P s'\<close> Cons.IH [of s'] Cons.prems(1) show ?thesis by simp
    next
      case (Some err)
      with Pair \<open>P s'\<close> show ?thesis by simp
    qed
  qed
qed

lemmas cut_field_simps = cut_field_scalar cut_field_raw cut_field_ValVar cut_field_classification

lemma cut_fields_scalars:
  "birth_stamp (fst (cut_fields vcut (map fst (vars_Object s)) b d s)) = birth_stamp s
   \<and> id_field (fst (cut_fields vcut (map fst (vars_Object s)) b d s)) = id_field s"
proof -
  define B where "B = birth_stamp s"
  define I where "I = id_field s"
  have "birth_stamp (fst (cut_fields vcut (map fst (vars_Object s)) b d s)) = B
        \<and> id_field (fst (cut_fields vcut (map fst (vars_Object s)) b d s)) = I"
  proof (rule cut_fields_invariant [where P = "\<lambda>s::Object. birth_stamp s = B \<and> id_field s = I"])
    fix k and s' :: Object
    assume "k \<in> set (map fst (vars_Object s))" and "birth_stamp s' = B \<and> id_field s' = I"
    then show "birth_stamp (fst (cut_field vcut b d s' k)) = B
               \<and> id_field (fst (cut_field vcut b d s' k)) = I"
      unfolding vars_keys by (auto simp: cut_field_simps)
  next
    show "birth_stamp s = B \<and> id_field s = I" by (simp add: B_def I_def)
  qed
  then show ?thesis by (simp add: B_def I_def)
qed

lemma cut_fields_ok_iff:
  "snd (cut_fields vcut ks b d s) = None \<longleftrightarrow> cut_fields_ok vcut ks b d s"
proof (induction ks arbitrary: s)
  case Nil
  show ?case by simp
next
  case (Cons k ks)
  show ?case
  proof (cases "cut_field vcut b d s k")
    case (Pair s' e)
    then show ?thesis using Cons.IH [of s'] by (cases e) simp_all
  qed
qed

lemma cut_fields_ok_result:
  "cut_fields_ok vcut ks b d s \<Longrightarrow>
   cut_fields vcut ks b d s = (cut_fields_all vcut ks b d s, None)"
proof (induction ks arbitrary: s)
  case Nil
  show ?case by simp
next
  case (Cons k ks)
  show ?case
  proof (cases "cut_field vcut b d s k")
    case (Pair s' e)
    with Cons.prems have "e = None" and "cut_fields_ok vcut ks b d s'" by simp_all
    with Pair Cons.IH [of s'] show ?thesis by simp
  qed
qed

lemma keys_ok:
  "cut_fields_ok vcut (map fst (vars_Object s)) b d s \<longleftrightarrow>
     list_all (\<lambda>v. snd (vcut v b d) = None) (ValVar_fields s)
     \<and> snd (ObjectClassification_cut_to_timespan (object_classification s) b d) = None"
  unfolding vars_keys ValVar_fields_def
  by (simp add: cut_field_simps)

lemma keys_all:
  "cut_fields_all vcut (map fst (vars_Object s)) b d s =
     s\<lparr>heading := fst (vcut (heading s) b d),
       width := fst (vcut (width s) b d),
       height := fst (vcut (height s) b d),
       length_field := fst (vcut (length_field s) b d),
       rcs := py_slice (rcs s) b (d + 1),
       age := py_slice (age s) b (d + 1),
       tracking_point := py_slice (tracking_point s) b (d + 1),
       confidence_of_existence := py_slice (confidence_of_existence s) b (d + 1),
       movement_classification := py_slice (movement_classification s) b (d + 1),
       meas_state := py_slice (meas_state s) b (d + 1),
       dist_longitudinal := fst (vcut (dist_longitudinal s) b d),
       dist_lateral := fst (vcut (dist_lateral s) b d),
       dist_z := fst (vcut (dist_z s) b d),
       rel_vel_longitudinal := fst (vcut (rel_vel_longitudinal s) b d),
       rel_vel_lateral := fst (vcut (rel_vel_lateral s) b d),
       abs_vel_longitudinal := fst (vcut (abs_vel_longitudinal s) b d),
       abs_vel_lateral := fst (vcut (abs_vel_lateral s) b d),
       rel_acc_longitudinal := fst (vcut (rel_acc_longitudinal s) b d),
       rel_acc_lateral := fst (vcut (rel_acc_lateral s) b d),
       abs_acc_longitudinal := fst (vcut (abs_acc_longitudinal s) b d),
       abs_acc_lateral := fst (vcut (abs_acc_lateral s) b d),
       object_classification :=
         fst (ObjectClassification_cut_to_timespan (object_classification s) b d)\<rparr>"
  unfolding vars_keys
  by (simp add: cut_field_simps)

lemma take_min_length: "take (min m (length ys)) ys = take m ys"
  by (simp add: min_def)

lemma py_slice_take_drop:
  assumes "0 \<le> birth" and "birth \<le> death"
  shows "py_slice xs birth (death + 1) = take (nat (death - birth + 1)) (drop (nat birth) xs)"
proof (cases "nat birth \<le> length xs")
  case True
  have k: "nat (death - birth + 1) = Suc (nat death) - nat birth"
    using assms by (simp add: nat_diff_distrib Suc_diff_le nat_add_distrib)
  have "py_slice xs birth (death + 1)
          = take (min (Suc (nat death)) (length xs) - nat birth) (drop (nat birth) xs)"
    using assms True by (simp add: py_slice_def slice_bound_def Let_def nat_add_distrib min_def)
  also have "min (Suc (nat death)) (length xs) - nat birth
          = min (Suc (nat death) - nat birth) (length (drop (nat birth) xs))"
    by (simp add: min_diff)
  also have "take \<dots> (drop (nat birth) xs) = take (Suc (nat death) - nat birth) (drop (nat birth) xs)"
    by (rule take_min_length)
  finally show ?thesis by (simp add: k)
next
  case False
  then show ?thesis
    using assms by (simp add: py_slice_def slice_bound_def Let_def)
qed

lemma py_len_py_slice:
  "0 \<le> birth \<Longrightarrow> birth \<le> death \<Longrightarrow>
   py_len (py_slice xs birth (death + 1)) = max 0 (min (py_len xs) (death + 1) - birth)"
  by (auto simp: py_slice_def slice_bound_def Let_def min_def max_def py_len_def nat_add_distrib)

lemma py_len_py_slice_full:
  "0 \<le> birth \<Longrightarrow> birth \<le> death \<Longrightarrow> death < py_len xs \<Longrightarrow>
   py_len (py_slice xs birth (death + 1)) = death - birth + 1"
  by (simp add: py_len_py_slice)

lemma py_slice_Nil: "py_slice [] i j = []"
  by (simp add: py_slice_def)

lemma py_slice_short:
  assumes "0 \<le> birth" and "birth \<le> death"
  shows "(py_len xs \<le> death \<longrightarrow> py_len (py_slice xs birth (death + 1)) < death - birth + 1)
         \<and> (py_len xs \<le> birth \<longrightarrow> py_slice xs birth (death + 1) = [])"
proof -
  have "py_len xs \<le> birth \<Longrightarrow> py_len (py_slice xs birth (death + 1)) = 0"
    using assms by (simp add: py_len_py_slice)
  then have "py_len xs \<le> birth \<Longrightarrow> py_slice xs birth (death + 1) = []"
    by (simp add: py_len_def)
  moreover have "py_len xs \<le> death \<Longrightarrow> py_len (py_slice xs birth (death + 1)) < death - birth + 1"
    using assms by (simp add: py_len_py_slice)
  ultimately show ?thesis by blast
qed

lemma cut_to_timespan_in_range:
  "0 \<le> birth \<Longrightarrow> birth \<le> death \<Longrightarrow> death < Object_len self \<Longrightarrow>
   cut_to_timespan vcut self birth death =
     cut_fields vcut (map fst (vars_Object (self\<lparr>birth_stamp := pyint_add (birth_stamp self) birth\<rparr>)))
       birth death (self\<lparr>birth_stamp := pyint_add (birth_stamp self) birth\<rparr>)"
  by (simp add: cut_to_timespan_def Let_def)

lemma cut_to_timespan_success:
  assumes "0 \<le> birth" and "birth \<le> death" and "death < Object_len self"
  shows "snd (cut_to_timespan vcut self birth death) = None \<longleftrightarrow>
           list_all (\<lambda>v. snd (vcut v birth death) = None) (ValVar_fields self)
           \<and> snd (ObjectClassification_cut_to_timespan (object_classification self) birth death)
               = None"
  by (simp add: cut_to_timespan_in_range [OF assms] cut_fields_ok_iff keys_ok)
     (simp add: ValVar_fields_def)

lemma cut_to_timespan_result:
  assumes "0 \<le> birth" and "birth \<le> death" and "death < Object_len self"
    and "snd (cut_to_timespan vcut self birth death) = None"
  shows "fst (cut_to_timespan vcut self birth death) =
     cut_fields_all vcut
       (map fst (vars_Object (self\<lparr>birth_stamp := pyint_add (birth_stamp self) birth\<rparr>))) birth death
       (self\<lparr>birth_stamp := pyint_add (birth_stamp self) birth\<rparr>)"
proof -
  let ?s1 = "self\<lparr>birth_stamp := pyint_add (birth_stamp self) birth\<rparr>"
  have "cut_fields_ok vcut (map fst (vars_Object ?s1)) birth death ?s1"
    using assms(4) by (simp add: cut_to_timespan_in_range [OF assms(1-3)] cut_fields_ok_iff)
  from cut_fields_ok_result [OF this] show ?thesis
    by (simp add: cut_to_timespan_in_range [OF assms(1-3)])
qed

lemma ObjectClassification_cut_result:
  assumes "0 \<le> birth" and "birth \<le> death"
  shows "ObjectClassification_cut_to_timespan self birth death =
     (if ObjectClassification.val self \<noteq> [] \<and> \<not> py_len (ObjectClassification.val self) > death
      then (self, Some AssertionError)
      else if confidence self \<noteq> [] \<and> \<not> py_len (confidence self) > death
      then (self\<lparr>ObjectClassification.val :=
                   py_slice (ObjectClassification.val self) birth (death + 1)\<rparr>,
            Some AssertionError)
      else (\<lparr>ObjectClassification.val = py_slice (ObjectClassification.val self) birth (death + 1),
             confidence = py_slice (confidence self) birth (death + 1)\<rparr>, None))"
  using assms
  by (cases self) (auto simp: ObjectClassification_cut_to_timespan_def py_len_def py_slice_Nil)

lemma ObjectClassification_cut_full:
  assumes "0 \<le> birth" and "birth \<le> death"
    and "death < py_len (ObjectClassification.val self)" and "death < py_len (confidence self)"
  shows "ObjectClassification_cut_to_timespan self birth death =
     (\<lparr>ObjectClassification.val = py_slice (ObjectClassification.val self) birth (death + 1),
       confidence = py_slice (confidence self) birth (death + 1)\<rparr>, None)"
  using assms by (simp add: ObjectClassification_cut_result)

text \<open>
  Claim C2, amended. For an object with \<^verbatim>\<open>len = L\<close>, bounds \<^verbatim>\<open>0 <= birth <= death < L\<close>,
  and every time-indexed series holding more than \<^verbatim>\<open>death\<close> elements (as they all do
  when they all have length \<^verbatim>\<open>L\<close>): \<^verbatim>\<open>cut_to_timespan(birth, death)\<close> raises nothing,
  \<^verbatim>\<open>len\<close> afterwards is \<^verbatim>\<open>death - birth + 1\<close>, and every time-indexed series (both
  series of the fifteen \<^verbatim>\<open>ValVar\<close> fields, the six raw sequences, both classification
  sequences) has exactly \<^verbatim>\<open>death - birth + 1\<close> elements. The cut of a \<^verbatim>\<open>ValVar\<close> is the
  one modelled from the spec.
\<close>
theorem cut_to_timespan_lengths:
  assumes "0 \<le> birth" and "birth \<le> death" and "death < Object_len self"
    and "list_all (\<lambda>n. death < n) (time_indexed_lengths self)"
  shows "snd (cut_to_timespan ValVar_cut_to_timespan self birth death) = None
     \<and> Object_len (fst (cut_to_timespan ValVar_cut_to_timespan self birth death))
         = death - birth + 1
     \<and> list_all (\<lambda>n. n = death - birth + 1)
         (time_indexed_lengths (fst (cut_to_timespan ValVar_cut_to_timespan self birth death)))"
proof -
  note bd = assms(1,2)
  have oc: "ObjectClassification_cut_to_timespan (object_classification self) birth death =
     (\<lparr>ObjectClassification.val =
          py_slice (ObjectClassification.val (object_classification self)) birth (death + 1),
       confidence = py_slice (confidence (object_classification self)) birth (death + 1)\<rparr>, None)"
    using assms(4)
    by (intro ObjectClassification_cut_full bd) (simp_all add: time_indexed_lengths_def)
  have ok: "snd (cut_to_timespan ValVar_cut_to_timespan self birth death) = None"
    by (simp add: cut_to_timespan_success [OF assms(1-3)] oc)
       (simp add: ValVar_cut_to_timespan_def list_all_iff)
  have res: "fst (cut_to_timespan ValVar_cut_to_timespan self birth death) =
     cut_fields_all ValVar_cut_to_timespan
       (map fst (vars_Object (self\<lparr>birth_stamp := pyint_add (birth_stamp self) birth\<rparr>))) birth death
       (self\<lparr>birth_stamp := pyint_add (birth_stamp self) birth\<rparr>)"
    by (rule cut_to_timespan_result [OF assms(1-3) ok])
  have len: "py_len (py_slice xs birth (death + 1)) = death - birth + 1"
    if "death < py_len xs" for xs :: "number list"
    using that by (simp add: py_len_py_slice_full bd)
  have lens: "list_all (\<lambda>n. n = death - birth + 1)
         (time_indexed_lengths (fst (cut_to_timespan ValVar_cut_to_timespan self birth death)))"
    using assms(4)
    by (simp add: res keys_all oc time_indexed_lengths_def ValVar_fields_def raw_sequences_def
                  ValVar_cut_to_timespan_def len)
  have "death < py_len (ValVar.val (dist_lateral self))"
    using assms(3) by (simp add: Object_len_def)
  then have "Object_len (fst (cut_to_timespan ValVar_cut_to_timespan self birth death))
         = death - birth + 1"
    by (simp add: res keys_all Object_len_def ValVar_cut_to_timespan_def len)
  with ok lens show ?thesis by blast
qed

lemma example_Object_len: "Object_len example_Object = 5"
  by (simp add: Object_len_def example_Object_def example_ValVar_def py_len_def)

lemma example_Object_lengths:
  "list_all (\<lambda>n. n = 5) (time_indexed_lengths example_Object)"
  by (simp add: time_indexed_lengths_def ValVar_fields_def raw_sequences_def
                example_Object_def example_ValVar_def py_len_def)

theorem cut_to_timespan_lengths_witness:
  "(0::int) \<le> 1 \<and> (1::int) \<le> 3 \<and> 3 < Object_len example_Object
   \<and> list_all (\<lambda>n. 3 < n) (time_indexed_lengths example_Object)
   \<and> snd (cut_to_timespan ValVar_cut_to_timespan example_Object 1 3) = None
   \<and> Object_len (fst (cut_to_timespan ValVar_cut_to_timespan example_Object 1 3)) = 3
   \<and> list_all (\<lambda>n. n = 3)
        (time_indexed_lengths (fst (cut_to_timespan ValVar_cut_to_timespan example_Object 1 3)))"
proof -
  have h: "(0::int) \<le> 1" "(1::int) \<le> 3" "3 < Object_len example_Object"
    by (simp_all add: example_Object_len)
  have l: "list_all (\<lambda>n. 3 < n) (time_indexed_lengths example_Object)"
    using example_Object_lengths by (auto simp: list_all_iff)
  from cut_to_timespan_lengths [OF h l] h l show ?thesis by simp
qed

lemma example_short_rcs_len: "Object_len example_Object_short_rcs = 5"
  by (simp add: Object_len_def example_Object_short_rcs_def example_Object_def
                example_ValVar_def py_len_def)

lemma example_short_rcs_ok:
  "snd (cut_to_timespan ValVar_cut_to_timespan example_Object_short_rcs 1 3) = None"
proof -
  have h: "(0::int) \<le> 1" "(1::int) \<le> 3" "3 < Object_len example_Object_short_rcs"
    by (simp_all add: example_short_rcs_len)
  show ?thesis
    by (simp add: cut_to_timespan_success [OF h])
       (simp add: ValVar_cut_to_timespan_def list_all_iff example_Object_short_rcs_def
                  example_Object_def ObjectClassification_cut_result py_len_def)
qed

lemma example_short_rcs_cut:
  "rcs (fst (cut_to_timespan ValVar_cut_to_timespan example_Object_short_rcs 1 3)) = []"
proof -
  have h: "(0::int) \<le> 1" "(1::int) \<le> 3" "3 < Object_len example_Object_short_rcs"
    by (simp_all add: example_short_rcs_len)
  have "rcs example_Object_short_rcs = [5]"
    by (simp add: example_Object_short_rcs_def)
  then show ?thesis
    by (simp add: cut_to_timespan_result [OF h example_short_rcs_ok] keys_all
                  py_slice_def slice_bound_def)
qed

text \<open>
  Claim C2, as stated, fails. The object \<open>example_Object_short_rcs\<close> has \<^verbatim>\<open>len\<close> 5, every
  \<^verbatim>\<open>ValVar\<close> series and both classification sequences hold five samples, and only
  \<^verbatim>\<open>rcs\<close> holds a single one. With \<^verbatim>\<open>0 <= 1 <= 3 < 5\<close> the call
  \<^verbatim>\<open>cut_to_timespan(1, 3)\<close> raises nothing, and \<^verbatim>\<open>rcs\<close> is left with no element,
  not with \<^verbatim>\<open>3 - 1 + 1\<close>: the code compares only \<^verbatim>\<open>len(dist_lateral.val)\<close> with
  \<^verbatim>\<open>death\<close>.
\<close>
theorem cut_to_timespan_lengths_counterexample:
  "Object_len example_Object_short_rcs = 5
   \<and> (0::int) \<le> 1 \<and> (1::int) \<le> 3 \<and> (3::int) < 5
   \<and> snd (cut_to_timespan ValVar_cut_to_timespan example_Object_short_rcs 1 3) = None
   \<and> py_len (rcs (fst (cut_to_timespan ValVar_cut_to_timespan example_Object_short_rcs 1 3)))
        \<noteq> 3 - 1 + 1"
  by (simp add: example_short_rcs_len example_short_rcs_ok example_short_rcs_cut py_len_def)

lemma no_wrap_add: "no_wrap a n \<Longrightarrow> int_of (pyint_add a n) = int_of a + n"
  by (cases a) (simp_all add: wrap_int64_def)

lemma wrap_int64_above:
  "2 ^ 63 \<le> x \<Longrightarrow> x < 2 ^ 63 + 2 ^ 64 \<Longrightarrow> wrap_int64 x = x - 2 ^ 64"
proof -
  assume a: "2 ^ 63 \<le> x" "x < 2 ^ 63 + 2 ^ 64"
  have "(x + 2 ^ 63) mod 2 ^ 64 = (x + 2 ^ 63 - 2 ^ 64) mod 2 ^ 64"
    by (metis minus_mod_self2)
  also have "\<dots> = x + 2 ^ 63 - 2 ^ 64"
    using a by (intro mod_pos_pos_trivial) simp_all
  finally show ?thesis by (simp add: wrap_int64_def)
qed

lemma extent_overlaps_window_iff:
  "extent_overlaps_window obj birth death \<longleftrightarrow>
     (\<exists>t. int_of (birth_stamp obj) \<le> t \<and> t < int_of (birth_stamp obj) + Object_len obj
          \<and> birth \<le> t \<and> t \<le> death)"
proof
  assume "extent_overlaps_window obj birth death"
  then have "int_of (birth_stamp obj) \<le> max (int_of (birth_stamp obj)) birth
      \<and> max (int_of (birth_stamp obj)) birth < int_of (birth_stamp obj) + Object_len obj
      \<and> birth \<le> max (int_of (birth_stamp obj)) birth
      \<and> max (int_of (birth_stamp obj)) birth \<le> death"
    by (simp add: extent_overlaps_window_def)
  then show "\<exists>t. int_of (birth_stamp obj) \<le> t \<and> t < int_of (birth_stamp obj) + Object_len obj
      \<and> birth \<le> t \<and> t \<le> death"
    by blast
next
  assume "\<exists>t. int_of (birth_stamp obj) \<le> t \<and> t < int_of (birth_stamp obj) + Object_len obj
      \<and> birth \<le> t \<and> t \<le> death"
  then show "extent_overlaps_window obj birth death"
    by (auto simp: extent_overlaps_window_def)
qed

lemma in_timespan_no_wrap:
  assumes "no_wrap (birth_stamp obj) (Object_len obj)"
  shows "in_timespan obj birth death \<longleftrightarrow>
     death \<ge> int_of (birth_stamp obj) \<and> birth < int_of (birth_stamp obj) + Object_len obj"
  using no_wrap_add [OF assms] by (auto simp: in_timespan_def Object_len_def)

lemma example_Object_int64_len: "Object_len example_Object_int64 = 5"
  by (simp add: example_Object_int64_def Object_len_def example_Object_def example_ValVar_def
      py_len_def)

text \<open>
  Claim C5, as stated, fails. The default object has no sample, so its extent \<open>[0, 0)\<close> is
  empty, yet \<^verbatim>\<open>in_timespan(-1, 0)\<close> is true. The window \<open>(12, 11)\<close> is empty, yet
  \<^verbatim>\<open>in_timespan(12, 11)\<close> is true of the example object with extent \<open>[10, 15)\<close>. And for
  a \<^verbatim>\<open>numpy.int64\<close> \<^verbatim>\<open>birth_stamp\<close> of \<open>2^63 - 1\<close> with five samples, \<^verbatim>\<open>birth_stamp + len\<close>
  wraps around, and \<^verbatim>\<open>in_timespan\<close> is false of a window that holds the object's first
  index.
\<close>
theorem in_timespan_overlap_counterexample:
  "in_timespan Object_default (- 1) 0 \<and> \<not> extent_overlaps_window Object_default (- 1) 0
   \<and> in_timespan example_Object 12 11 \<and> \<not> extent_overlaps_window example_Object 12 11
   \<and> \<not> in_timespan example_Object_int64 (2 ^ 63 - 1) (2 ^ 63 - 1)
   \<and> extent_overlaps_window example_Object_int64 (2 ^ 63 - 1) (2 ^ 63 - 1)"
proof -
  have 1: "in_timespan Object_default (- 1) 0"
    by (simp add: in_timespan_def Object_default_def py_len_def)
  have 2: "\<not> extent_overlaps_window Object_default (- 1) 0"
    by (simp add: extent_overlaps_window_def Object_default_def Object_len_def py_len_def)
  have 3: "in_timespan example_Object 12 11"
    by (simp add: in_timespan_def example_Object_def example_ValVar_def py_len_def)
  have 4: "\<not> extent_overlaps_window example_Object 12 11"
    by (simp add: extent_overlaps_window_def)
  have 5: "\<not> in_timespan example_Object_int64 (2 ^ 63 - 1) (2 ^ 63 - 1)"
    by (simp add: in_timespan_def example_Object_int64_def example_Object_def example_ValVar_def
        py_len_def wrap_int64_def)
  have 6: "extent_overlaps_window example_Object_int64 (2 ^ 63 - 1) (2 ^ 63 - 1)"
    by (simp add: extent_overlaps_window_def example_Object_int64_len)
      (simp add: example_Object_int64_def)
  from 1 2 3 4 5 6 show ?thesis by blast
qed

text \<open>
  Claim C5, amended. For an object whose \<^verbatim>\<open>birth_stamp + len\<close> does not wrap around (a
  Python \<^verbatim>\<open>int\<close> never does, a \<^verbatim>\<open>numpy.int64\<close> does not when the sum is below \<open>2^63\<close>) and
  all integers \<open>birth\<close> and \<open>death\<close>: \<^verbatim>\<open>in_timespan(birth, death)\<close> is
  \<^verbatim>\<open>death >= birth_stamp and birth < birth_stamp + len\<close>; when the window is not empty
  (\<^verbatim>\<open>birth <= death\<close>) and the object has a sample (\<^verbatim>\<open>len > 0\<close>), that is the case if and
  only if the extent \<open>[birth_stamp, birth_stamp + len)\<close> overlaps the window
  \<open>[birth, death]\<close>; and for \<^verbatim>\<open>birth_stamp = 10\<close> and \<^verbatim>\<open>len = 5\<close> it is true for the
  window (14, 20), false for (15, 20), true for (0, 10) and false for (0, 9).
\<close>
theorem in_timespan_overlap:
  assumes "no_wrap (birth_stamp obj) (Object_len obj)"
  shows "(in_timespan obj birth death \<longleftrightarrow>
            death \<ge> int_of (birth_stamp obj)
            \<and> birth < int_of (birth_stamp obj) + Object_len obj)
     \<and> (birth \<le> death \<and> 0 < Object_len obj \<longrightarrow>
          (in_timespan obj birth death \<longleftrightarrow> extent_overlaps_window obj birth death))
     \<and> (int_of (birth_stamp obj) = 10 \<and> Object_len obj = 5 \<longrightarrow>
          in_timespan obj 14 20 \<and> \<not> in_timespan obj 15 20
          \<and> in_timespan obj 0 10 \<and> \<not> in_timespan obj 0 9)"
proof -
  note f = in_timespan_no_wrap [OF assms]
  have "in_timespan obj birth death \<longleftrightarrow> extent_overlaps_window obj birth death"
    if "birth \<le> death" and "0 < Object_len obj"
    using that by (auto simp: f extent_overlaps_window_def)
  moreover have "in_timespan obj 14 20 \<and> \<not> in_timespan obj 15 20
          \<and> in_timespan obj 0 10 \<and> \<not> in_timespan obj 0 9"
    if "int_of (birth_stamp obj) = 10 \<and> Object_len obj = 5"
    using that by (simp add: f)
  ultimately show ?thesis using f [of birth death] by blast
qed

theorem in_timespan_overlap_witness:
  "no_wrap (birth_stamp example_Object) (Object_len example_Object)
   \<and> int_of (birth_stamp example_Object) = 10 \<and> Object_len example_Object = 5
   \<and> (12::int) \<le> 14 \<and> extent_overlaps_window example_Object 12 14
   \<and> in_timespan example_Object 12 14
   \<and> in_timespan example_Object 14 20 \<and> \<not> in_timespan example_Object 15 20
   \<and> in_timespan example_Object 0 10 \<and> \<not> in_timespan example_Object 0 9"
proof -
  have b: "birth_stamp example_Object = PyInt 10"
    by (simp add: example_Object_def)
  then have n: "no_wrap (birth_stamp example_Object) (Object_len example_Object)"
    by simp
  have h: "int_of (birth_stamp example_Object) = 10 \<and> Object_len example_Object = 5"
    using b by (simp add: example_Object_len)
  have o: "extent_overlaps_window example_Object 12 14"
    using h by (simp add: extent_overlaps_window_def)
  have l: "(12::int) \<le> 14 \<and> 0 < Object_len example_Object"
    by (simp add: example_Object_len)
  note t = in_timespan_overlap [OF n, of 12 14]
  from t l o have "in_timespan example_Object 12 14" by blast
  moreover from t h have "in_timespan example_Object 14 20 \<and> \<not> in_timespan example_Object 15 20
      \<and> in_timespan example_Object 0 10 \<and> \<not> in_timespan example_Object 0 9"
    by blast
  ultimately show ?thesis using n h o by simp
qed

text \<open>
  Claim C4. \<^verbatim>\<open>cut_to_timespan(birth, death)\<close> fails whenever \<^verbatim>\<open>birth > death\<close>,
  \<^verbatim>\<open>birth < 0\<close> or \<^verbatim>\<open>death >= len\<close>; the object is then left as it was. The failure
  is the one of a Python \<^verbatim>\<open>assert\<close>, which is what the spec calls a range error. The
  instance \<^verbatim>\<open>cut_to_timespan(2, 10)\<close> on an object with \<^verbatim>\<open>len = 5\<close> follows it.
\<close>
theorem cut_to_timespan_out_of_range:
  "birth > death \<or> birth < 0 \<or> death \<ge> Object_len self \<Longrightarrow>
   cut_to_timespan vcut self birth death = (self, Some AssertionError)"
  by (auto simp: cut_to_timespan_def)

theorem cut_to_timespan_out_of_range_witness:
  "((2::int) > 10 \<or> (2::int) < 0 \<or> 10 \<ge> Object_len example_Object)
   \<and> cut_to_timespan ValVar_cut_to_timespan example_Object 2 10
       = (example_Object, Some AssertionError)"
proof -
  have h: "(2::int) > 10 \<or> (2::int) < 0 \<or> 10 \<ge> Object_len example_Object"
    by (simp add: example_Object_len)
  from cut_to_timespan_out_of_range [OF h] h show ?thesis by blast
qed

text \<open>
  Claim C3, as stated, fails for a \<^verbatim>\<open>birth_stamp\<close> that is a \<^verbatim>\<open>numpy.int64\<close>, as a load with
  \<^verbatim>\<open>validate=False\<close> leaves it. The object \<open>example_Object_int64\<close> has \<^verbatim>\<open>len\<close> 5 and the
  \<^verbatim>\<open>birth_stamp\<close> \<open>2^63 - 1\<close>; after \<^verbatim>\<open>cut_to_timespan(1, 3)\<close> its \<^verbatim>\<open>birth_stamp\<close> is
  \<open>- 2^63\<close>, not \<open>2^63\<close>: the addition wraps around.
\<close>
theorem cut_to_timespan_birth_stamp_counterexample:
  "(0::int) \<le> 1 \<and> (1::int) \<le> 3 \<and> 3 < Object_len example_Object_int64
   \<and> int_of (birth_stamp example_Object_int64) + 1 = 2 ^ 63
   \<and> birth_stamp (fst (cut_to_timespan ValVar_cut_to_timespan example_Object_int64 1 3))
       = NpInt64 (- (2 ^ 63))"
proof -
  have h: "(0::int) \<le> 1" "(1::int) \<le> 3" "3 < Object_len example_Object_int64"
    by (simp_all add: example_Object_int64_len)
  have b: "birth_stamp example_Object_int64 = NpInt64 (2 ^ 63 - 1)"
    by (simp add: example_Object_int64_def)
  have "birth_stamp (fst (cut_to_timespan ValVar_cut_to_timespan example_Object_int64 1 3))
      = pyint_add (birth_stamp example_Object_int64) 1"
    using cut_fields_scalars [of ValVar_cut_to_timespan
        "example_Object_int64\<lparr>birth_stamp := pyint_add (birth_stamp example_Object_int64) 1\<rparr>"
        1 3]
    by (simp add: cut_to_timespan_in_range [OF h])
  also have "\<dots> = NpInt64 (- (2 ^ 63))"
    by (simp add: b wrap_int64_def)
  finally show ?thesis using h b by simp
qed

text \<open>
  Claim C3, amended. For an object with \<^verbatim>\<open>birth_stamp = B\<close> and \<^verbatim>\<open>len = L\<close> and bounds
  \<^verbatim>\<open>0 <= birth <= death < L\<close>, after \<^verbatim>\<open>cut_to_timespan(birth, death)\<close> the \<^verbatim>\<open>birth_stamp\<close> is
  \<^verbatim>\<open>birth_stamp + birth\<close> as Python computes it: \<open>B + birth\<close> when \<^verbatim>\<open>birth_stamp\<close> is a
  Python \<^verbatim>\<open>int\<close>, and when it is a \<^verbatim>\<open>numpy.int64\<close> and \<open>B + birth\<close> is below \<open>2^63\<close>; a
  \<^verbatim>\<open>numpy.int64\<close> for which \<open>B + birth\<close> reaches \<open>2^63\<close> becomes \<open>B + birth - 2^64\<close>. The
  \<^verbatim>\<open>id\<close> is unchanged in every case. This holds whatever \<^verbatim>\<open>ValVar.cut_to_timespan\<close> does,
  and also when a nested cut raises: the shift comes before the loop, and the loop passes
  over strings and integers. (\<^verbatim>\<open>id\<close> and \<^verbatim>\<open>birth_stamp\<close> are the only fields that are
  neither a \<^verbatim>\<open>ValVar\<close>, the classification, a list nor an array.)
\<close>
theorem cut_to_timespan_birth_stamp:
  assumes "0 \<le> birth" and "birth \<le> death" and "death < Object_len self"
  shows "birth_stamp (fst (cut_to_timespan vcut self birth death))
           = pyint_add (birth_stamp self) birth
     \<and> (no_wrap (birth_stamp self) birth \<longrightarrow>
          int_of (birth_stamp (fst (cut_to_timespan vcut self birth death)))
            = int_of (birth_stamp self) + birth)
     \<and> (\<forall>B. birth_stamp self = PyInt B \<longrightarrow>
          birth_stamp (fst (cut_to_timespan vcut self birth death)) = PyInt (B + birth))
     \<and> (\<forall>B. birth_stamp self = NpInt64 B \<and> B < 2 ^ 63 \<and> birth < 2 ^ 63
            \<and> 2 ^ 63 \<le> B + birth \<longrightarrow>
          birth_stamp (fst (cut_to_timespan vcut self birth death))
            = NpInt64 (B + birth - 2 ^ 64))
     \<and> id_field (fst (cut_to_timespan vcut self birth death)) = id_field self"
proof -
  have s: "birth_stamp (fst (cut_to_timespan vcut self birth death))
           = pyint_add (birth_stamp self) birth
      \<and> id_field (fst (cut_to_timespan vcut self birth death)) = id_field self"
    using cut_fields_scalars [of vcut "self\<lparr>birth_stamp := pyint_add (birth_stamp self) birth\<rparr>"
        birth death]
    by (simp add: cut_to_timespan_in_range [OF assms])
  have w: "pyint_add (NpInt64 B) birth = NpInt64 (B + birth - 2 ^ 64)"
    if "B < 2 ^ 63" and "birth < 2 ^ 63" and "2 ^ 63 \<le> B + birth" for B
  proof -
    have "B + birth < 2 ^ 63 + 2 ^ 64" using that by simp
    then show ?thesis using that by (simp add: wrap_int64_above)
  qed
  from s w no_wrap_add [of "birth_stamp self" birth] show ?thesis by auto
qed

theorem cut_to_timespan_birth_stamp_witness:
  "(0::int) \<le> 1 \<and> (1::int) \<le> 3 \<and> 3 < Object_len example_Object
   \<and> no_wrap (birth_stamp example_Object) 1
   \<and> birth_stamp (fst (cut_to_timespan ValVar_cut_to_timespan example_Object 1 3)) = PyInt 11
   \<and> id_field (fst (cut_to_timespan ValVar_cut_to_timespan example_Object 1 3)) = ''RU-1''"
proof -
  have h: "(0::int) \<le> 1" "(1::int) \<le> 3" "3 < Object_len example_Object"
    by (simp_all add: example_Object_len)
  have e: "birth_stamp example_Object = PyInt 10" "id_field example_Object = ''RU-1''"
    by (simp_all add: example_Object_def)
  with cut_to_timespan_birth_stamp [OF h, of ValVar_cut_to_timespan] h show ?thesis by simp
qed

text \<open>
  Claim C10. For \<^verbatim>\<open>0 <= birth <= death < len\<close>, whatever \<^verbatim>\<open>ValVar.cut_to_timespan\<close>
  does: \<^verbatim>\<open>Object.cut_to_timespan\<close> raises only if the cut of one of its \<^verbatim>\<open>ValVar\<close> fields
  or of its classification raises, so no length of a raw sequence makes it fail; when
  it raises nothing, each raw sequence (\<^verbatim>\<open>rcs\<close>, \<^verbatim>\<open>age\<close>, \<^verbatim>\<open>tracking_point\<close>,
  \<^verbatim>\<open>confidence_of_existence\<close>, \<^verbatim>\<open>movement_classification\<close>, \<^verbatim>\<open>meas_state\<close>) is its
  slice \<^verbatim>\<open>[birth:death + 1]\<close>; and such a slice of a sequence of \<^verbatim>\<open>death\<close> elements or
  fewer has fewer than \<^verbatim>\<open>death - birth + 1\<close> elements, none if the sequence has at most
  \<^verbatim>\<open>birth\<close>.
\<close>
theorem cut_to_timespan_raw_sequences:
  assumes "0 \<le> birth" and "birth \<le> death" and "death < Object_len self"
  shows "(snd (cut_to_timespan vcut self birth death) = None \<longleftrightarrow>
            list_all (\<lambda>v. snd (vcut v birth death) = None) (ValVar_fields self)
            \<and> snd (ObjectClassification_cut_to_timespan (object_classification self) birth death)
                = None)
     \<and> (snd (cut_to_timespan vcut self birth death) = None \<longrightarrow>
          raw_sequences (fst (cut_to_timespan vcut self birth death))
            = map (\<lambda>xs. py_slice xs birth (death + 1)) (raw_sequences self))
     \<and> (\<forall>xs :: number list.
          py_len (py_slice xs birth (death + 1)) = max 0 (min (py_len xs) (death + 1) - birth)
          \<and> (py_len xs \<le> death \<longrightarrow> py_len (py_slice xs birth (death + 1)) < death - birth + 1)
          \<and> (py_len xs \<le> birth \<longrightarrow> py_slice xs birth (death + 1) = []))"
proof -
  note bd = assms(1,2)
  have raw: "raw_sequences (fst (cut_to_timespan vcut self birth death))
             = map (\<lambda>xs. py_slice xs birth (death + 1)) (raw_sequences self)"
    if "snd (cut_to_timespan vcut self birth death) = None"
    by (simp add: cut_to_timespan_result [OF assms that] keys_all raw_sequences_def)
  have sl: "py_len (py_slice xs birth (death + 1)) = max 0 (min (py_len xs) (death + 1) - birth)
          \<and> (py_len xs \<le> death \<longrightarrow> py_len (py_slice xs birth (death + 1)) < death - birth + 1)
          \<and> (py_len xs \<le> birth \<longrightarrow> py_slice xs birth (death + 1) = [])"
    for xs :: "number list"
    using py_slice_short [OF bd, of xs] py_len_py_slice [OF bd, of xs] by blast
  from raw sl cut_to_timespan_success [OF assms, of vcut] show ?thesis by blast
qed

theorem cut_to_timespan_raw_sequences_witness:
  "(0::int) \<le> 1 \<and> (1::int) \<le> 3 \<and> 3 < Object_len example_Object_short_rcs
   \<and> py_len (rcs example_Object_short_rcs) \<le> 1
   \<and> snd (cut_to_timespan ValVar_cut_to_timespan example_Object_short_rcs 1 3) = None
   \<and> rcs (fst (cut_to_timespan ValVar_cut_to_timespan example_Object_short_rcs 1 3)) = []"
proof -
  have h: "(0::int) \<le> 1" "(1::int) \<le> 3" "3 < Object_len example_Object_short_rcs"
    by (simp_all add: example_short_rcs_len)
  have short: "py_len (rcs example_Object_short_rcs) \<le> 1"
    by (simp add: example_Object_short_rcs_def py_len_def)
  note t = cut_to_timespan_raw_sequences [OF h, of ValVar_cut_to_timespan]
  from t example_short_rcs_ok
  have "raw_sequences (fst (cut_to_timespan ValVar_cut_to_timespan example_Object_short_rcs 1 3))
          = map (\<lambda>xs. py_slice xs 1 (3 + 1)) (raw_sequences example_Object_short_rcs)"
    by blast
  then have r: "rcs (fst (cut_to_timespan ValVar_cut_to_timespan example_Object_short_rcs 1 3))
          = py_slice (rcs example_Object_short_rcs) 1 (3 + 1)"
    by (simp add: raw_sequences_def)
  from t short have "py_slice (rcs example_Object_short_rcs) 1 (3 + 1) = []"
    by blast
  with r short h example_short_rcs_ok show ?thesis by simp
qed

text \<open>
  Claim C8. For \<^verbatim>\<open>0 <= birth <= death\<close>, \<^verbatim>\<open>ObjectClassification.cut_to_timespan\<close> treats
  its two sequences independently: it succeeds exactly when each of them is empty or
  longer than \<^verbatim>\<open>death\<close> (and fails by assertion otherwise); on success each sequence is
  narrowed to the indices \<^verbatim>\<open>birth..death\<close>, so a non-empty one has
  \<^verbatim>\<open>death - birth + 1\<close> elements and an empty one stays empty, whatever the other does.
\<close>
theorem ObjectClassification_cut_to_timespan_independent:
  assumes "0 \<le> birth" and "birth \<le> death"
  shows "(snd (ObjectClassification_cut_to_timespan self birth death) = None \<longleftrightarrow>
            (ObjectClassification.val self = [] \<or> py_len (ObjectClassification.val self) > death)
            \<and> (confidence self = [] \<or> py_len (confidence self) > death))
   \<and> (snd (ObjectClassification_cut_to_timespan self birth death) \<noteq> None \<longrightarrow>
         snd (ObjectClassification_cut_to_timespan self birth death) = Some AssertionError)
   \<and> (snd (ObjectClassification_cut_to_timespan self birth death) = None \<longrightarrow>
         ObjectClassification.val (fst (ObjectClassification_cut_to_timespan self birth death))
           = take (nat (death - birth + 1)) (drop (nat birth) (ObjectClassification.val self))
         \<and> confidence (fst (ObjectClassification_cut_to_timespan self birth death))
           = take (nat (death - birth + 1)) (drop (nat birth) (confidence self))
         \<and> py_len (ObjectClassification.val (fst (ObjectClassification_cut_to_timespan self birth death)))
           = (if ObjectClassification.val self = [] then 0 else death - birth + 1)
         \<and> py_len (confidence (fst (ObjectClassification_cut_to_timespan self birth death)))
           = (if confidence self = [] then 0 else death - birth + 1))"
proof -
  have len: "py_len (py_slice xs birth (death + 1)) = (if xs = [] then 0 else death - birth + 1)"
    if "xs = [] \<or> py_len xs > death" for xs :: "number list"
    using that assms py_len_py_slice_full [of birth death xs]
    by (auto simp: py_slice_Nil py_len_def)
  show ?thesis
    using assms
    by (auto simp: ObjectClassification_cut_result [OF assms] len
                   py_slice_take_drop [symmetric])
qed

theorem ObjectClassification_cut_to_timespan_independent_witness:
  "(0::int) \<le> 1 \<and> (1::int) \<le> 3
   \<and> snd (ObjectClassification_cut_to_timespan
        \<lparr>ObjectClassification.val = [4, 4, 4, 5, 4], confidence = []\<rparr> 1 3) = None
   \<and> ObjectClassification.val (fst (ObjectClassification_cut_to_timespan
        \<lparr>ObjectClassification.val = [4, 4, 4, 5, 4], confidence = []\<rparr> 1 3)) = [4, 4, 5]
   \<and> confidence (fst (ObjectClassification_cut_to_timespan
        \<lparr>ObjectClassification.val = [4, 4, 4, 5, 4], confidence = []\<rparr> 1 3)) = []"
proof -
  have h: "(0::int) \<le> 1" "(1::int) \<le> 3" by simp_all
  from ObjectClassification_cut_to_timespan_independent
         [OF h, of "\<lparr>ObjectClassification.val = [4, 4, 4, 5, 4], confidence = []\<rparr>"] h
  show ?thesis by (simp add: py_len_def)
qed

lemma check_confidence_values_outside:
  assumes "\<exists>x\<in>set v. x < 0 \<or> 1 < x"
  shows "check_confidence_values v = Inl AssertionError"
proof -
  from assms obtain x where x: "x \<in> set v" "x < 0 \<or> 1 < x" by blast
  from x(2) have "\<not> (0 \<le> x \<and> x \<le> 1)" by linarith
  with x(1) have "\<not> (\<forall>y\<in>set v. 0 \<le> y \<and> y \<le> 1)" by blast
  then have "\<not> list_all (\<lambda>x. 0 \<le> x \<and> x \<le> 1) v"
    by (simp add: list_all_iff)
  moreover have "v \<noteq> []" using x(1) by auto
  ultimately show ?thesis by (simp add: check_confidence_values_def)
qed

lemma check_confidence_values_inside:
  "\<forall>x\<in>set v. 0 \<le> x \<and> x \<le> 1 \<Longrightarrow> check_confidence_values v = Inr v"
  by (simp add: check_confidence_values_def list_all_iff)

lemma ObjectClassification_init_result:
  "list_all member val_arg \<Longrightarrow>
   snd (ObjectClassification_init member val_arg confidence_arg) =
     (case check_confidence_values confidence_arg of
        Inl e \<Rightarrow> Inl ValidationError
      | Inr v \<Rightarrow> Inr \<lparr>ObjectClassification.val = val_arg, confidence = v\<rparr>)"
  by (simp add: ObjectClassification_init_def check_array_length_def split: sum.split)

text \<open>
  Claim C6. Validated construction of an \<^verbatim>\<open>ObjectClassification\<close> from valid labels fails
  with a validation error if some confidence value lies outside [0, 1], as 1.5 does,
  and succeeds if every confidence value lies in [0, 1], the bounds 0.0 and 1.0
  included, or if there is no confidence value.
\<close>
theorem ObjectClassification_init_confidence:
  assumes "list_all member val_arg"
  shows "((\<exists>x\<in>set confidence_arg. x < 0 \<or> 1 < x) \<longrightarrow>
            snd (ObjectClassification_init member val_arg confidence_arg) = Inl ValidationError)
     \<and> ((\<forall>x\<in>set confidence_arg. 0 \<le> x \<and> x \<le> 1) \<longrightarrow>
            snd (ObjectClassification_init member val_arg confidence_arg)
              = Inr \<lparr>ObjectClassification.val = val_arg, confidence = confidence_arg\<rparr>)
     \<and> snd (ObjectClassification_init member val_arg [])
          = Inr \<lparr>ObjectClassification.val = val_arg, confidence = []\<rparr>
     \<and> snd (ObjectClassification_init member val_arg [1.5]) = Inl ValidationError
     \<and> snd (ObjectClassification_init member val_arg [0.0, 1.0])
          = Inr \<lparr>ObjectClassification.val = val_arg, confidence = [0.0, 1.0]\<rparr>"
proof -
  note r = ObjectClassification_init_result [OF assms]
  have 1: "(\<exists>x\<in>set confidence_arg. x < 0 \<or> 1 < x) \<longrightarrow>
            snd (ObjectClassification_init member val_arg confidence_arg) = Inl ValidationError"
    by (simp add: r check_confidence_values_outside)
  have 2: "(\<forall>x\<in>set confidence_arg. 0 \<le> x \<and> x \<le> 1) \<longrightarrow>
            snd (ObjectClassification_init member val_arg confidence_arg)
              = Inr \<lparr>ObjectClassification.val = val_arg, confidence = confidence_arg\<rparr>"
    by (simp add: r check_confidence_values_inside)
  have 3: "snd (ObjectClassification_init member val_arg [])
          = Inr \<lparr>ObjectClassification.val = val_arg, confidence = []\<rparr>"
    by (simp add: r check_confidence_values_def)
  have 4: "snd (ObjectClassification_init member val_arg [1.5]) = Inl ValidationError"
    by (simp add: r check_confidence_values_def)
  have 5: "snd (ObjectClassification_init member val_arg [0.0, 1.0])
          = Inr \<lparr>ObjectClassification.val = val_arg, confidence = [0.0, 1.0]\<rparr>"
    by (simp add: r check_confidence_values_def)
  from 1 2 3 4 5 show ?thesis by blast
qed

theorem ObjectClassification_init_confidence_witness:
  "list_all (\<lambda>c. c \<in> {1, 2, 3, 4}) [4, 4 :: number]
   \<and> snd (ObjectClassification_init (\<lambda>c. c \<in> {1, 2, 3, 4}) [4, 4] [1.5])
       = Inl ValidationError
   \<and> snd (ObjectClassification_init (\<lambda>c. c \<in> {1, 2, 3, 4}) [4, 4] [0.0, 1.0])
       = Inr \<lparr>ObjectClassification.val = [4, 4], confidence = [0.0, 1.0]\<rparr>"
proof -
  have h: "list_all (\<lambda>c. c \<in> {1, 2, 3, 4}) [4, 4 :: number]" by simp
  from ObjectClassification_init_confidence [OF h] h
  show ?thesis by blast
qed

text \<open>
  Claim C7, as stated, fails: it has the warning emitted if and only if the lengths
  differ and \<^verbatim>\<open>confidence\<close> is non-empty. With five labels and an empty confidence
  array the warning is emitted, although \<^verbatim>\<open>confidence\<close> is empty:
  \<^verbatim>\<open>check_array_length\<close> compares the two lengths and nothing else.
\<close>
theorem ObjectClassification_init_warning_counterexample:
  "fst (ObjectClassification_init (\<lambda>c. True) [4, 4, 4, 4, 4] []) = [UserWarning]
   \<and> \<not> (length [4, 4, 4, 4, 4 :: number] \<noteq> length ([] :: number list)
        \<and> ([] :: number list) \<noteq> [])"
  by (simp add: ObjectClassification_init_def check_confidence_values_def
                check_array_length_def py_len_def)

text \<open>
  Claim C7, amended. Construction of an \<^verbatim>\<open>ObjectClassification\<close> from valid labels and
  confidence values in [0, 1] never fails, whatever the two lengths are; a warning is
  emitted if and only if the two lengths differ, whether \<^verbatim>\<open>confidence\<close> is empty or
  not. So five labels with an empty confidence array construct successfully and emit
  the warning.
\<close>
theorem ObjectClassification_init_length_mismatch:
  assumes "list_all member val_arg" and "list_all (\<lambda>x. 0 \<le> x \<and> x \<le> 1) confidence_arg"
  shows "snd (ObjectClassification_init member val_arg confidence_arg)
           = Inr \<lparr>ObjectClassification.val = val_arg, confidence = confidence_arg\<rparr>
     \<and> (fst (ObjectClassification_init member val_arg confidence_arg) = [UserWarning]
          \<longleftrightarrow> length confidence_arg \<noteq> length val_arg)
     \<and> (fst (ObjectClassification_init member val_arg confidence_arg) = []
          \<longleftrightarrow> length confidence_arg = length val_arg)"
  using assms
  by (simp add: ObjectClassification_init_def check_confidence_values_def
                check_array_length_def py_len_def)

theorem ObjectClassification_init_length_mismatch_witness:
  "list_all (\<lambda>c. True) [4, 4, 4, 4, 4 :: number]
   \<and> list_all (\<lambda>x. 0 \<le> x \<and> x \<le> 1) ([] :: number list)
   \<and> ObjectClassification_init (\<lambda>c. True) [4, 4, 4, 4, 4] []
       = ([UserWarning], Inr \<lparr>ObjectClassification.val = [4, 4, 4, 4, 4], confidence = []\<rparr>)"
proof -
  have h: "list_all (\<lambda>c. True) [4, 4, 4, 4, 4 :: number]"
    "list_all (\<lambda>x. 0 \<le> x \<and> x \<le> 1) ([] :: number list)" by simp_all
  from ObjectClassification_init_length_mismatch [OF h] h
  show ?thesis
    by (cases "ObjectClassification_init (\<lambda>c. True) [4, 4, 4, 4, 4] []") simp
qed

lemma SettingsGetter_set_frame:
  "map_of kwargs k = None \<or> map_of kwargs k = Some PNone \<Longrightarrow> distinct (map fst kwargs) \<Longrightarrow>
   fst (SettingsGetter_set settings kwargs) k = settings k"
proof (induction kwargs arbitrary: settings)
  case Nil
  show ?case by simp
next
  case (Cons kv kwargs)
  have rest: "map_of kwargs k = None \<or> map_of kwargs k = Some PNone"
    using Cons.prems by (auto split: if_splits simp: map_of_eq_None_iff)
  have d: "distinct (map fst kwargs)" using Cons.prems by simp
  show ?case
  proof (cases "snd kv = PNone")
    case True
    then show ?thesis using Cons.IH [OF rest d] by simp
  next
    case False
    then have ne: "fst kv \<noteq> k" using Cons.prems(1) by (cases kv) auto
    show ?thesis
    proof (cases "fst kv \<in> set Settings_fields")
      case True
      have step: "SettingsGetter_set settings (kv # kwargs)
          = SettingsGetter_set (settings(fst kv \<mapsto> snd kv)) kwargs"
        using True \<open>snd kv \<noteq> PNone\<close> by (simp add: setattr_Settings_def)
      have "fst (SettingsGetter_set (settings(fst kv \<mapsto> snd kv)) kwargs) k
          = (settings(fst kv \<mapsto> snd kv)) k"
        by (rule Cons.IH [OF rest d])
      also have "\<dots> = settings k" using ne by simp
      finally show ?thesis unfolding step .
    next
      case False
      with \<open>snd kv \<noteq> PNone\<close> show ?thesis by (simp add: setattr_Settings_def)
    qed
  qed
qed

lemma SettingsGetter_set_fields:
  "distinct (map fst kwargs) \<Longrightarrow>
   \<forall>k v. map_of kwargs k = Some v \<and> v \<noteq> PNone \<longrightarrow> k \<in> set Settings_fields \<Longrightarrow>
   snd (SettingsGetter_set settings kwargs) = None
   \<and> (\<forall>k v. map_of kwargs k = Some v \<and> v \<noteq> PNone \<longrightarrow>
         fst (SettingsGetter_set settings kwargs) k = Some v)"
proof (induction kwargs arbitrary: settings)
  case Nil
  show ?case by simp
next
  case (Cons kv kwargs)
  obtain k0 v0 where kv: "kv = (k0, v0)" by (cases kv)
  have d: "distinct (map fst kwargs)" and notin: "k0 \<notin> fst ` set kwargs"
    using Cons.prems(1) kv by simp_all
  have later: "map_of kwargs k = Some v \<Longrightarrow> k \<noteq> k0" for k v
  proof
    assume "map_of kwargs k = Some v" and "k = k0"
    then have "(k0, v) \<in> set kwargs" by (auto dest: map_of_SomeD)
    then have "k0 \<in> fst ` set kwargs" by force
    with notin show False by simp
  qed
  have f: "\<forall>k v. map_of kwargs k = Some v \<and> v \<noteq> PNone \<longrightarrow> k \<in> set Settings_fields"
    using Cons.prems(2) later kv by auto
  show ?case
  proof (cases "v0 = PNone")
    case True
    with kv Cons.IH [OF d f, of settings] later show ?thesis by auto
  next
    case False
    with Cons.prems(2) kv have fld: "k0 \<in> set Settings_fields" by simp
    let ?s = "settings(k0 \<mapsto> v0)"
    have step: "SettingsGetter_set settings (kv # kwargs) = SettingsGetter_set ?s kwargs"
      using False fld kv by (simp add: setattr_Settings_def)
    have "map_of kwargs k0 = None"
      using notin by (simp add: map_of_eq_None_iff)
    then have "fst (SettingsGetter_set ?s kwargs) k0 = ?s k0"
      using d by (intro SettingsGetter_set_frame) simp_all
    then have here: "fst (SettingsGetter_set ?s kwargs) k0 = Some v0" by simp
    have ih: "snd (SettingsGetter_set ?s kwargs) = None
        \<and> (\<forall>k v. map_of kwargs k = Some v \<and> v \<noteq> PNone \<longrightarrow>
              fst (SettingsGetter_set ?s kwargs) k = Some v)"
      by (rule Cons.IH [OF d f])
    have "fst (SettingsGetter_set ?s kwargs) k = Some v"
      if "map_of (kv # kwargs) k = Some v" and "v \<noteq> PNone" for k v
    proof (cases "k = k0")
      case True
      with that kv have "v = v0" by simp
      with here True show ?thesis by simp
    next
      case False
      with that kv have "map_of kwargs k = Some v" by simp
      with ih that show ?thesis by blast
    qed
    with ih show ?thesis unfolding step by blast
  qed
qed

text \<open>
  Claim C9. \<^verbatim>\<open>SettingsGetter.set\<close> called with keyword arguments \<open>kwargs\<close>: every
  attribute of the settings object whose keyword is absent or passed as \<^verbatim>\<open>None\<close> has its
  prior value afterwards (also when the call raises); and when every keyword passed with
  a value other than \<^verbatim>\<open>None\<close> names a declared field of \<^verbatim>\<open>Settings\<close>, the call raises
  nothing and each such field holds the value passed.
\<close>
theorem SettingsGetter_set_non_null_only:
  assumes "distinct (map fst kwargs)"
  shows "(\<forall>k. map_of kwargs k = None \<or> map_of kwargs k = Some PNone \<longrightarrow>
            fst (SettingsGetter_set settings kwargs) k = settings k)
     \<and> ((\<forall>k v. map_of kwargs k = Some v \<and> v \<noteq> PNone \<longrightarrow> k \<in> set Settings_fields) \<longrightarrow>
          snd (SettingsGetter_set settings kwargs) = None
          \<and> (\<forall>k v. map_of kwargs k = Some v \<and> v \<noteq> PNone \<longrightarrow>
                fst (SettingsGetter_set settings kwargs) k = Some v))"
  using SettingsGetter_set_frame [OF _ assms] SettingsGetter_set_fields [OF assms]
  by blast

theorem SettingsGetter_set_non_null_only_witness:
  "distinct (map fst [(''ALLOW_MISSING_TL_GROUPS'', PBool False),
                      (''ALLOW_INCOMPLETE_META_DATA'', PNone)])
   \<and> snd (SettingsGetter_set Settings_default
        [(''ALLOW_MISSING_TL_GROUPS'', PBool False), (''ALLOW_INCOMPLETE_META_DATA'', PNone)])
      = None
   \<and> fst (SettingsGetter_set Settings_default
        [(''ALLOW_MISSING_TL_GROUPS'', PBool False), (''ALLOW_INCOMPLETE_META_DATA'', PNone)])
        ''ALLOW_MISSING_TL_GROUPS'' = Some (PBool False)
   \<and> fst (SettingsGetter_set Settings_default
        [(''ALLOW_MISSING_TL_GROUPS'', PBool False), (''ALLOW_INCOMPLETE_META_DATA'', PNone)])
        ''ALLOW_INCOMPLETE_META_DATA'' = Some (PBool True)"
proof -
  let ?kw = "[(''ALLOW_MISSING_TL_GROUPS'', PBool False), (''ALLOW_INCOMPLETE_META_DATA'', PNone)]"
  let ?r = "SettingsGetter_set Settings_default ?kw"
  have h: "distinct (map fst ?kw)" by simp
  have fields: "\<forall>k v. map_of ?kw k = Some v \<and> v \<noteq> PNone \<longrightarrow> k \<in> set Settings_fields"
    by (simp add: Settings_fields_def)
  have null: "map_of ?kw ''ALLOW_INCOMPLETE_META_DATA'' = Some PNone" by simp
  have given: "map_of ?kw ''ALLOW_MISSING_TL_GROUPS'' = Some (PBool False)" by simp
  have prior: "Settings_default ''ALLOW_INCOMPLETE_META_DATA'' = Some (PBool True)"
    by (simp add: Settings_default_def)
  note t = SettingsGetter_set_non_null_only [OF h, of Settings_default]
  from t null have "fst ?r ''ALLOW_INCOMPLETE_META_DATA''
      = Settings_default ''ALLOW_INCOMPLETE_META_DATA''" by blast
  with prior have kept: "fst ?r ''ALLOW_INCOMPLETE_META_DATA'' = Some (PBool True)" by simp
  from t fields have ok: "snd ?r = None" by blast
  from t fields given have "fst ?r ''ALLOW_MISSING_TL_GROUPS'' = Some (PBool False)" by blast
  with h kept ok show ?thesis by blast
qed

lemma bind_result_Inl: "bind_result (Inl e) f = Inl e"
  by (simp add: bind_result_def)

lemma bind_result_Inr: "bind_result (Inr a) f = f a"
  by (simp add: bind_result_def)

lemma bind_result_fails:
  assumes "\<And>a. r = Inr a \<Longrightarrow> \<exists>e. f a = Inl e"
  shows "\<exists>e. bind_result r f = Inl e"
  using assms by (cases r) (simp_all add: bind_result_def)

lemma bind_result_Inr_iff:
  "bind_result r f = Inr y \<longleftrightarrow> (\<exists>a. r = Inr a \<and> f a = Inr y)"
  by (cases r) (simp_all add: bind_result_def)

lemma SettingsGetter_set_undeclared:
  "k \<notin> set Settings_fields \<Longrightarrow> fst (SettingsGetter_set settings kwargs) k = settings k"
proof (induction kwargs arbitrary: settings)
  case Nil
  show ?case by simp
next
  case (Cons kv kwargs)
  show ?case
  proof (cases "snd kv \<noteq> PNone \<and> fst kv \<in> set Settings_fields")
    case True
    then have step: "SettingsGetter_set settings (kv # kwargs)
        = SettingsGetter_set (settings(fst kv \<mapsto> snd kv)) kwargs"
      by (simp add: setattr_Settings_def)
    from True Cons.prems have "fst kv \<noteq> k" by blast
    then have upd: "(settings(fst kv \<mapsto> snd kv)) k = settings k" by simp
    have "fst (SettingsGetter_set (settings(fst kv \<mapsto> snd kv)) kwargs) k
        = (settings(fst kv \<mapsto> snd kv)) k"
      by (rule Cons.IH [OF Cons.prems])
    then show ?thesis unfolding step upd .
  next
    case False
    with Cons.IH [OF Cons.prems, of settings] show ?thesis
      by (auto simp add: setattr_Settings_def)
  qed
qed

lemma declared_settings_no_compress_args:
  "hdf5_compress_args (fst (SettingsGetter_set Settings_default kwargs)) = Inl AttributeError"
proof -
  have "fst (SettingsGetter_set Settings_default kwargs) ''hdf5_compress_args''
      = Settings_default ''hdf5_compress_args''"
    by (rule SettingsGetter_set_undeclared) (simp add: Settings_fields_def)
  then have "fst (SettingsGetter_set Settings_default kwargs) ''hdf5_compress_args'' = None"
    by (simp add: Settings_default_def)
  then show ?thesis by (simp add: hdf5_compress_args_def)
qed

lemma create_dataset_compressed_fails:
  "hdf5_compress_args settings = Inl AttributeError \<Longrightarrow>
   create_dataset_compressed h5 settings g n d = Inl AttributeError"
  by (simp add: create_dataset_compressed_def bind_result_Inl)

lemma Object_to_hdf5_no_compress_args:
  assumes "hdf5_compress_args settings = Inl AttributeError"
  shows "\<exists>e. Object_to_hdf5 vto h5 settings self grp = Inl e"
  unfolding Object_to_hdf5_def
  apply (rule bind_result_fails)
  apply (rule bind_result_fails)
  apply (rule bind_result_fails)
  apply (rule bind_result_fails)
  apply (rule bind_result_fails)
  apply (simp only: create_dataset_compressed_fails [OF assms] bind_result_Inl)
  apply simp
  done

lemma ValVar_to_hdf5_no_compress_args:
  "hdf5_compress_args settings = Inl AttributeError \<Longrightarrow>
   ValVar_to_hdf5 h5 settings v g = Inl AttributeError"
  by (simp add: ValVar_to_hdf5_def create_dataset_compressed_fails bind_result_Inl)

lemma Object_to_hdf5_AttributeError:
  assumes "hdf5_compress_args settings = Inl AttributeError"
    and "numpy_scalar (birth_stamp self) = Inr x"
  shows "Object_to_hdf5 (ValVar_to_hdf5 h5 settings) h5 settings self (empty_Group node)
           = Inl AttributeError"
proof -
  have "create_group_to_hdf5 (Group node [''birthStamp'' \<mapsto> x] Map.empty) ''heading''
          (ValVar_to_hdf5 h5 settings (heading self)) = Inl AttributeError"
    by (simp add: create_group_to_hdf5_def ValVar_to_hdf5_no_compress_args [OF assms(1)]
        bind_result_Inl)
  then show ?thesis
    unfolding Object_to_hdf5_def
    by (simp only: attrs_create_def assms(2) bind_result_Inr bind_result_Inl empty_Group_def
        Group.sel)
qed

lemma example_Object_valid: "valid_Object example_PerceptionTypes example_Object"
  by (simp add: valid_Object_def Object_init_def example_PerceptionTypes_def example_Object_def
      ObjectClassification_init_def check_confidence_values_def check_array_length_def
      py_len_def)

lemma Object_from_hdf5_id:
  assumes "snd (Object_from_hdf5 vfrom pt grp validate) = Inr obj"
  shows "id_field obj = rpartition_last (name grp)
     \<and> (\<exists>a. attrs_getitem grp ''birthStamp'' = Inr a
            \<and> birth_stamp obj
                = (if validate then PyInt (astype_int a) else NpInt64 (astype_int a)))"
  using assms unfolding Object_from_hdf5_def Object_init_def
  by (auto simp add: bind_result_Inr_iff
      split: sum.splits prod.splits if_splits)

text \<open>
  Claim C1. Every saver reads \<^verbatim>\<open>get_settings().hdf5_compress_args\<close>, and the class
  \<^verbatim>\<open>Settings\<close> declares no such field. With the settings the class builds, whatever
  \<^verbatim>\<open>SettingsGetter.set\<close> was called with, \<^verbatim>\<open>to_hdf5\<close> into a fresh node raises for every
  object, every node and every \<^verbatim>\<open>ValVar.to_hdf5\<close>, so nothing is read back. At the valid
  object \<open>example_Object\<close>, saved into a node named after its id, with the \<^verbatim>\<open>ValVar\<close> saver
  modelled from the spec, the exception is \<^verbatim>\<open>AttributeError\<close>.
\<close>
theorem save_and_load_declared_settings:
  "(\<exists>e. save_and_load vto vfrom h5 (fst (SettingsGetter_set Settings_default kwargs)) pt self node
          = ([], Inl e))
   \<and> valid_Object example_PerceptionTypes example_Object
   \<and> rpartition_last ''/perception/object/RU-1'' = id_field example_Object
   \<and> save_and_load (ValVar_to_hdf5 h5 Settings_default) vfrom h5 Settings_default
        example_PerceptionTypes example_Object ''/perception/object/RU-1''
       = ([], Inl AttributeError)"
proof -
  let ?s = "fst (SettingsGetter_set Settings_default kwargs)"
  obtain e where "Object_to_hdf5 vto h5 ?s self (empty_Group node) = Inl e"
    using Object_to_hdf5_no_compress_args [OF declared_settings_no_compress_args] by blast
  then have 1: "\<exists>e. save_and_load vto vfrom h5 ?s pt self node = ([], Inl e)"
    by (simp add: save_and_load_def)
  have c: "hdf5_compress_args Settings_default = Inl AttributeError"
    using declared_settings_no_compress_args [of "[]"] by simp
  have b: "numpy_scalar (birth_stamp example_Object) = Inr (Int64 10)"
    by (simp add: example_Object_def)
  have 2: "save_and_load (ValVar_to_hdf5 h5 Settings_default) vfrom h5 Settings_default
        example_PerceptionTypes example_Object ''/perception/object/RU-1''
       = ([], Inl AttributeError)"
    by (simp add: save_and_load_def Object_to_hdf5_AttributeError [OF c b])
  have 3: "rpartition_last ''/perception/object/RU-1'' = id_field example_Object"
    by (simp add: rpartition_last_def example_Object_def)
  from 1 2 3 example_Object_valid show ?thesis by blast
qed

end
